theory Spec2Isabelle
  imports Main
begin

section \<open>JavaScript values\<close>

text \<open>
  The custom-emoji store keeps its collection as JSON text in one slot of the browser's
  local storage, and the import reads JSON text from a file. A decoded JSON document is a
  value of type \<open>json\<close>. An object is the list of its properties; the first binding of a
  key is the property's value. Numbers are restricted to integers: the program only tests
  them for truthiness and strict equality and turns them into property keys. \<open>JNum n\<close> is
  the number whose shortest decimal form, the one JavaScript prints, denotes \<open>n\<close>.

  A JavaScript expression may also evaluate to \<open>undefined\<close> (a property that is not
  there), which is not a JSON value: \<open>jsval\<close> adds it as \<open>None\<close>.
\<close>

datatype json =
    JNull
  | JBool bool
  | JNum int
  | JStr string
  | JArr "json list"
  | JObj "(string \<times> json) list"

type_synonym jsval = "json option"

datatype js_error =
    TypeError
  | SyntaxError
  | IndexSizeError
  | QuotaExceededError
  | Error string

text \<open>Truthiness, as \<open>!x\<close> and \<open>x ? a : b\<close> test it.\<close>

fun truthy :: "jsval \<Rightarrow> bool" where
  "truthy None = False"
| "truthy (Some JNull) = False"
| "truthy (Some (JBool b)) = b"
| "truthy (Some (JNum n)) = (n \<noteq> 0)"
| "truthy (Some (JStr s)) = (s \<noteq> [])"
| "truthy (Some (JArr xs)) = True"
| "truthy (Some (JObj kvs)) = True"

text \<open>
  Strict equality \<open>===\<close>. Primitives compare by value. Arrays and objects compare by
  reference; the values compared here are parts of separately decoded JSON documents, which
  never share an object, so two of them are never the same reference.
\<close>

fun by_reference :: "jsval \<Rightarrow> bool" where
  "by_reference (Some (JArr xs)) = True"
| "by_reference (Some (JObj kvs)) = True"
| "by_reference _ = False"

definition strict_eq :: "jsval \<Rightarrow> jsval \<Rightarrow> bool" where
  "strict_eq a b = (a = b \<and> \<not> by_reference a)"

text \<open>
  Property access \<open>e.k\<close>, for the keys the program reads (\<open>id\<close>, \<open>name\<close>, \<open>src\<close>
  and \<open>length\<close>). Reading a property of \<open>null\<close> throws a TypeError; a primitive or an
  array has none of \<open>id\<close>, \<open>name\<close>, \<open>src\<close>.
\<close>

fun field :: "json \<Rightarrow> string \<Rightarrow> jsval" where
  "field (JObj kvs) k = map_of kvs k"
| "field (JArr xs) k = (if k = ''length'' then Some (JNum (int (length xs))) else None)"
| "field (JStr s) k = (if k = ''length'' then Some (JNum (int (length s))) else None)"
| "field _ k = None"

definition property :: "json \<Rightarrow> string \<Rightarrow> js_error + jsval" where
  "property e k = (if e = JNull then Inl TypeError else Inr (field e k))"

text \<open>
  The string a value becomes in a template literal or as a property key. The conversion
  of an object calls its \<open>toString\<close>: a decoded JSON object has the one of
  \<open>Object.prototype\<close>, unless it has a property of that name, which is not a function, and
  then the conversion throws a TypeError. An array joins the strings of its elements, \<open>null\<close>
  counting as the empty string.
\<close>

function decimal :: "nat \<Rightarrow> string" where
  "decimal n =
     (if n < 10 then [''0123456789'' ! n]
      else decimal (n div 10) @ [''0123456789'' ! (n mod 10)])"
  by pat_completeness auto
termination
  by (relation "measure (\<lambda>n. n)") auto

text \<open>
  \<open>Number::toString\<close> on an integer: below \<open>10\<^sup>2\<^sup>1\<close> its decimal digits; from there on
  the exponent form, the digits without their trailing zeros, a point after the first when
  more follow, and the exponent (\<open>1e+21\<close>, \<open>1.5e+21\<close>).
\<close>

definition strip_zeros :: "string \<Rightarrow> string" where
  "strip_zeros ds = rev (dropWhile (\<lambda>c. c = CHR ''0'') (rev ds))"

definition exponent_form :: "nat \<Rightarrow> string" where
  "exponent_form v =
     (case strip_zeros (decimal v) of
        [] \<Rightarrow> ''0''
      | d # ds \<Rightarrow>
          d # (if ds = [] then [] else CHR ''.'' # ds) @ ''e+'' @ decimal (length (decimal v) - 1))"

definition natural_to_string :: "nat \<Rightarrow> string" where
  "natural_to_string v = (if v < 10 ^ 21 then decimal v else exponent_form v)"

definition number_to_string :: "int \<Rightarrow> string" where
  "number_to_string i =
     (if i < 0 then CHR ''-'' # natural_to_string (nat (- i)) else natural_to_string (nat i))"

fun join :: "string \<Rightarrow> string list \<Rightarrow> string" where
  "join sep [] = []"
| "join sep [x] = x"
| "join sep (x # y # ys) = x @ sep @ join sep (y # ys)"

fun to_string :: "json \<Rightarrow> js_error + string"
  and elements_to_string :: "json list \<Rightarrow> js_error + string list" where
  "to_string JNull = Inr ''null''"
| "to_string (JBool b) = Inr (if b then ''true'' else ''false'')"
| "to_string (JNum n) = Inr (number_to_string n)"
| "to_string (JStr s) = Inr s"
| "to_string (JArr xs) =
     (case elements_to_string xs of Inl e \<Rightarrow> Inl e | Inr parts \<Rightarrow> Inr (join '','' parts))"
| "to_string (JObj kvs) =
     (if map_of kvs ''toString'' = None then Inr ''[object Object]'' else Inl TypeError)"
| "elements_to_string [] = Inr []"
| "elements_to_string (x # xs) =
     (case (if x = JNull then Inr [] else to_string x) of
        Inl e \<Rightarrow> Inl e
      | Inr part \<Rightarrow>
          (case elements_to_string xs of Inl e \<Rightarrow> Inl e | Inr parts \<Rightarrow> Inr (part # parts)))"

definition ToString :: "jsval \<Rightarrow> js_error + string" where
  "ToString v = (case v of None \<Rightarrow> Inr ''undefined'' | Some j \<Rightarrow> to_string j)"

text \<open>
  Array methods whose callback may throw: the exception leaves the method at the first
  element that raises it.
\<close>

fun array_some :: "('a \<Rightarrow> js_error + bool) \<Rightarrow> 'a list \<Rightarrow> js_error + bool" where
  "array_some p [] = Inr False"
| "array_some p (x # xs) =
     (case p x of Inl e \<Rightarrow> Inl e | Inr True \<Rightarrow> Inr True | Inr False \<Rightarrow> array_some p xs)"

text \<open>\<open>findIndex\<close>: the first index whose element satisfies the callback; \<open>None\<close> is \<open>-1\<close>.\<close>

fun array_findIndex :: "('a \<Rightarrow> js_error + bool) \<Rightarrow> 'a list \<Rightarrow> js_error + nat option" where
  "array_findIndex p [] = Inr None"
| "array_findIndex p (x # xs) =
     (case p x of
        Inl e \<Rightarrow> Inl e
      | Inr True \<Rightarrow> Inr (Some 0)
      | Inr False \<Rightarrow>
          (case array_findIndex p xs of
             Inl e \<Rightarrow> Inl e
           | Inr None \<Rightarrow> Inr None
           | Inr (Some i) \<Rightarrow> Inr (Some (Suc i))))"

fun array_filter :: "('a \<Rightarrow> js_error + bool) \<Rightarrow> 'a list \<Rightarrow> js_error + 'a list" where
  "array_filter p [] = Inr []"
| "array_filter p (x # xs) =
     (case p x of
        Inl e \<Rightarrow> Inl e
      | Inr keep \<Rightarrow>
          (case array_filter p xs of
             Inl e \<Rightarrow> Inl e
           | Inr ys \<Rightarrow> Inr (if keep then x # ys else ys)))"

fun array_map :: "('a \<Rightarrow> js_error + 'b) \<Rightarrow> 'a list \<Rightarrow> js_error + 'b list" where
  "array_map f [] = Inr []"
| "array_map f (x # xs) =
     (case f x of
        Inl e \<Rightarrow> Inl e
      | Inr y \<Rightarrow> (case array_map f xs of Inl e \<Rightarrow> Inl e | Inr ys \<Rightarrow> Inr (y # ys)))"

section \<open>The persistence slot\<close>

text \<open>
  The string held under the key \<open>custom_emojis\<close> is represented by what \<open>JSON.parse\<close>
  makes of it: \<open>Blank\<close> is the empty string, \<open>Malformed\<close> any other string that
  \<open>JSON.parse\<close> rejects with a SyntaxError, and \<open>Encoded v\<close> a string that it decodes to
  \<open>v\<close>. \<open>JSON.stringify\<close> of a JSON value \<open>v\<close> is such a string. Both functions belong to
  the JavaScript runtime, not to the extension.

  \<open>setItem\<close> may throw (the quota is exceeded, or storage is disabled); \<open>accepts\<close> says
  for which strings the browser takes the write. \<open>setItem_calls\<close> counts the writes the
  program has attempted.
\<close>

datatype content = Blank | Malformed | Encoded json

fun JSON_parse :: "content \<Rightarrow> js_error + json" where
  "JSON_parse Blank = Inl SyntaxError"
| "JSON_parse Malformed = Inl SyntaxError"
| "JSON_parse (Encoded v) = Inr v"

definition JSON_stringify :: "json \<Rightarrow> content" where
  "JSON_stringify v = Encoded v"

record storage =
  slot :: "content option"
  accepts :: "content \<Rightarrow> bool"
  setItem_calls :: nat

definition getItem :: "storage \<Rightarrow> content option" where
  "getItem st = slot st"

definition setItem :: "storage \<Rightarrow> content \<Rightarrow> js_error option \<times> storage" where
  "setItem st t =
     (if accepts st t
      then (None, st\<lparr>slot := Some t, setItem_calls := Suc (setItem_calls st)\<rparr>)
      else (Some QuotaExceededError, st\<lparr>setItem_calls := Suc (setItem_calls st)\<rparr>))"

section \<open>The emoji record store\<close>

text \<open>
  \<open>loadCustomEmojis\<close> (the same in both files, apart from the alert): \<open>load_body\<close> is
  the body of its \<open>try\<close>. A missing slot and the empty string are falsy and give the
  empty array without decoding; whatever \<open>JSON.parse\<close> returns is returned as it is. The
  \<open>catch\<close> turns an exception into the empty array, so the function has no error
  result.
\<close>

definition load_body :: "storage \<Rightarrow> js_error + json" where
  "load_body st =
     (case getItem st of
        None \<Rightarrow> Inr (JArr [])
      | Some stored \<Rightarrow> if stored = Blank then Inr (JArr []) else JSON_parse stored)"

definition loadCustomEmojis :: "storage \<Rightarrow> json" where
  "loadCustomEmojis st = (case load_body st of Inl error \<Rightarrow> JArr [] | Inr v \<Rightarrow> v)"

text \<open>
  \<open>saveCustomEmojis\<close>: one \<open>setItem\<close> of the serialised array; an exception of
  \<open>setItem\<close> is caught (and reported to the user), so the function always returns.
\<close>

definition saveCustomEmojis :: "storage \<Rightarrow> json list \<Rightarrow> storage" where
  "saveCustomEmojis st emojis = snd (setItem st (JSON_stringify (JArr emojis)))"

text \<open>
  The record \<open>addCustomEmoji\<close> builds from its arguments (all strings, \<open>keywords\<close> an
  array of strings that defaults to the empty array).
\<close>

definition newEmoji :: "string \<Rightarrow> string \<Rightarrow> string \<Rightarrow> string list \<Rightarrow> json" where
  "newEmoji ident name url keywords =
     JObj [(''id'', JStr ident),
           (''name'', JStr name),
           (''src'', JStr url),
           (''keywords'', JArr (JStr name # map JStr keywords)),
           (''skins'', JArr [JObj [(''src'', JStr url)]])]"

text \<open>The callback \<open>emoji => emoji.name === name && emoji.id !== id\<close>.\<close>

definition duplicate_name :: "string \<Rightarrow> string \<Rightarrow> json \<Rightarrow> js_error + bool" where
  "duplicate_name ident name emoji =
     (case property emoji ''name'' of
        Inl e \<Rightarrow> Inl e
      | Inr n \<Rightarrow>
          if strict_eq n (Some (JStr name))
          then (case property emoji ''id'' of
                  Inl e \<Rightarrow> Inl e
                | Inr i \<Rightarrow> Inr (\<not> strict_eq i (Some (JStr ident))))
          else Inr False)"

text \<open>The callback \<open>emoji => emoji.id === id\<close>.\<close>

definition has_id :: "jsval \<Rightarrow> json \<Rightarrow> js_error + bool" where
  "has_id ident emoji =
     (case property emoji ''id'' of Inl e \<Rightarrow> Inl e | Inr i \<Rightarrow> Inr (strict_eq i ident))"

text \<open>The callback \<open>emoji => emoji.id !== id\<close>.\<close>

definition other_id :: "jsval \<Rightarrow> json \<Rightarrow> js_error + bool" where
  "other_id ident emoji =
     (case property emoji ''id'' of Inl e \<Rightarrow> Inl e | Inr i \<Rightarrow> Inr (\<not> strict_eq i ident))"

text \<open>
  \<open>addCustomEmoji\<close> of the extension's \<open>index.js\<close> that has the manager's import and
  export: the duplicate-name check comes first and returns \<open>false\<close> before anything is
  written. Calling an array method on a loaded value that is not an array throws a
  TypeError, which is not caught here. The \<open>try\<close> around \<open>saveCustomEmojis\<close> never
  catches anything, since that function catches its own exceptions.
\<close>

definition addCustomEmoji ::
  "storage \<Rightarrow> string \<Rightarrow> string \<Rightarrow> string \<Rightarrow> string list \<Rightarrow> js_error + (bool \<times> storage)" where
  "addCustomEmoji st ident name url keywords =
     (case loadCustomEmojis st of
        JArr customEmojis \<Rightarrow>
          (case array_some (duplicate_name ident name) customEmojis of
             Inl e \<Rightarrow> Inl e
           | Inr True \<Rightarrow> Inr (False, st)
           | Inr False \<Rightarrow>
               (case array_findIndex (has_id (Some (JStr ident))) customEmojis of
                  Inl e \<Rightarrow> Inl e
                | Inr (Some existingIndex) \<Rightarrow>
                    Inr (True, saveCustomEmojis st
                                 (customEmojis[existingIndex := newEmoji ident name url keywords]))
                | Inr None \<Rightarrow>
                    Inr (True, saveCustomEmojis st
                                 (customEmojis @ [newEmoji ident name url keywords]))))
      | _ \<Rightarrow> Inl TypeError)"

text \<open>
  \<open>addCustomEmoji\<close> of \<open>src/index.js\<close>: the same upsert, with no duplicate-name check.
\<close>

definition addCustomEmoji_src ::
  "storage \<Rightarrow> string \<Rightarrow> string \<Rightarrow> string \<Rightarrow> string list \<Rightarrow> js_error + (bool \<times> storage)" where
  "addCustomEmoji_src st ident name url keywords =
     (case loadCustomEmojis st of
        JArr customEmojis \<Rightarrow>
          (case array_findIndex (has_id (Some (JStr ident))) customEmojis of
             Inl e \<Rightarrow> Inl e
           | Inr (Some existingIndex) \<Rightarrow>
               Inr (True, saveCustomEmojis st
                            (customEmojis[existingIndex := newEmoji ident name url keywords]))
           | Inr None \<Rightarrow>
               Inr (True, saveCustomEmojis st
                            (customEmojis @ [newEmoji ident name url keywords])))
      | _ \<Rightarrow> Inl TypeError)"

text \<open>
  \<open>removeCustomEmoji\<close> (the same in both files): filter, save, return \<open>true\<close>.
\<close>

definition removeCustomEmoji :: "storage \<Rightarrow> string \<Rightarrow> js_error + (bool \<times> storage)" where
  "removeCustomEmoji st ident =
     (case loadCustomEmojis st of
        JArr customEmojis \<Rightarrow>
          (case array_filter (other_id (Some (JStr ident))) customEmojis of
             Inl e \<Rightarrow> Inl e
           | Inr filteredEmojis \<Rightarrow> Inr (True, saveCustomEmojis st filteredEmojis))
      | _ \<Rightarrow> Inl TypeError)"

section \<open>The emoji data composer\<close>

text \<open>
  The dataset handed to the picker widget. The base dataset \<open>data\<close> comes from the
  widget's data package and is a parameter here; of its fields the composer touches
  \<open>categories\<close> and \<open>emojis\<close>, and the object spread \<open>...data\<close> carries every other
  field over (the record's extension). A base category has an id and its member ids; the
  custom category also has a display name. A member id is whatever \<open>emoji.id\<close> evaluates
  to.
\<close>

record category =
  cat_id :: string
  cat_name :: "string option"
  cat_emojis :: "jsval list"

record emoji_data =
  categories :: "category list"
  emojis :: "string \<rightharpoonup> json"

definition CUSTOM_EMOJI_CATEGORY :: string where
  "CUSTOM_EMOJI_CATEGORY = ''custom''"

text \<open>
  The assignment \<open>acc[emoji.id] = emoji\<close> on a plain object: the key is the id as a
  string. The key \<open>__proto__\<close> sets the prototype of \<open>acc\<close> instead of a property of its
  own, so the spread of \<open>acc\<close> does not copy it.
\<close>

definition assign ::
  "(string \<rightharpoonup> json) \<Rightarrow> jsval \<Rightarrow> json \<Rightarrow> js_error + (string \<rightharpoonup> json)" where
  "assign acc key v =
     (case ToString key of
        Inl e \<Rightarrow> Inl e
      | Inr k \<Rightarrow> Inr (if k = ''__proto__'' then acc else acc(k \<mapsto> v)))"

text \<open>The \<open>reduce\<close> that builds the table of the custom records.\<close>

fun emoji_table :: "json list \<Rightarrow> (string \<rightharpoonup> json) \<Rightarrow> js_error + (string \<rightharpoonup> json)" where
  "emoji_table [] acc = Inr acc"
| "emoji_table (emoji # rest) acc =
     (case property emoji ''id'' of
        Inl e \<Rightarrow> Inl e
      | Inr i \<Rightarrow>
          (case assign acc i emoji of
             Inl e \<Rightarrow> Inl e
           | Inr acc' \<Rightarrow> emoji_table rest acc'))"

text \<open>
  \<open>createCustomEmojiData\<close> (the same in both files). It reads the custom records from
  the store itself. The test \<open>customEmojis.length === 0\<close> comes first; \<open>map\<close> and
  \<open>reduce\<close> exist on arrays only.
\<close>

definition createCustomEmojiData ::
  "'a emoji_data_scheme \<Rightarrow> storage \<Rightarrow> js_error + 'a emoji_data_scheme" where
  "createCustomEmojiData data st =
     (let customEmojis = loadCustomEmojis st in
      case property customEmojis ''length'' of
        Inl e \<Rightarrow> Inl e
      | Inr len \<Rightarrow>
          if strict_eq len (Some (JNum 0)) then Inr data
          else (case customEmojis of
                  JArr records \<Rightarrow>
                    (case array_map (\<lambda>emoji. property emoji ''id'') records of
                       Inl e \<Rightarrow> Inl e
                     | Inr ids \<Rightarrow>
                         (case emoji_table records Map.empty of
                            Inl e \<Rightarrow> Inl e
                          | Inr table \<Rightarrow>
                              Inr (data\<lparr>categories := categories data @
                                           [\<lparr>cat_id = CUSTOM_EMOJI_CATEGORY,
                                             cat_name = Some ''Custom'',
                                             cat_emojis = ids\<rparr>],
                                         emojis := emojis data ++ table\<rparr>)))
                | _ \<Rightarrow> Inl TypeError))"

section \<open>The list of the manager panel\<close>

text \<open>
  \<open>updateCustomEmojiList\<close> renders one item per stored record from the strings of its
  \<open>src\<close>, \<open>name\<close> and \<open>id\<close>, in the order the template reads them (after the first
  access the record is known not to be \<open>null\<close>). The result is the list of these strings;
  the elements of the page it builds are not modelled, and the list container is taken to
  exist, as it does once the manager panel is created.
\<close>

definition list_item :: "json \<Rightarrow> js_error + (string \<times> string \<times> string)" where
  "list_item emoji =
     (case property emoji ''src'' of
        Inl e \<Rightarrow> Inl e
      | Inr s \<Rightarrow>
          (case ToString s of
             Inl e \<Rightarrow> Inl e
           | Inr src_text \<Rightarrow>
               (case ToString (field emoji ''name'') of
                  Inl e \<Rightarrow> Inl e
                | Inr name_text \<Rightarrow>
                    (case ToString (field emoji ''id'') of
                       Inl e \<Rightarrow> Inl e
                     | Inr id_text \<Rightarrow> Inr (src_text, name_text, id_text)))))"

definition updateCustomEmojiList :: "storage \<Rightarrow> js_error + (string \<times> string \<times> string) list" where
  "updateCustomEmojiList st =
     (case loadCustomEmojis st of
        JArr customEmojis \<Rightarrow> array_map list_item customEmojis
      | _ \<Rightarrow> Inl TypeError)"

section \<open>The import\<close>

text \<open>The test \<open>!emoji.id || !emoji.name || !emoji.src\<close> of the validation loop.\<close>

definition missing_required :: "json \<Rightarrow> js_error + bool" where
  "missing_required emoji =
     (case property emoji ''id'' of
        Inl e \<Rightarrow> Inl e
      | Inr i \<Rightarrow>
          if \<not> truthy i then Inr True
          else (case property emoji ''name'' of
                  Inl e \<Rightarrow> Inl e
                | Inr n \<Rightarrow>
                    if \<not> truthy n then Inr True
                    else (case property emoji ''src'' of
                            Inl e \<Rightarrow> Inl e
                          | Inr s \<Rightarrow> Inr (\<not> truthy s))))"

fun validate :: "json list \<Rightarrow> js_error + unit" where
  "validate [] = Inr ()"
| "validate (emoji # rest) =
     (case missing_required emoji of
        Inl e \<Rightarrow> Inl e
      | Inr True \<Rightarrow> Inl (Error ''Invalid emoji format: missing required fields (id, name, src)'')
      | Inr False \<Rightarrow> validate rest)"

text \<open>
  The spread \<open>[...existingEmojis]\<close>: a copy of an array, the characters of a string, a
  TypeError for a value that is not iterable.
\<close>

fun spread :: "json \<Rightarrow> js_error + json list" where
  "spread (JArr xs) = Inr xs"
| "spread (JStr s) = Inr (map (\<lambda>c. JStr [c]) s)"
| "spread _ = Inl TypeError"

text \<open>The callback \<open>e => e.id === importedEmoji.id\<close>.\<close>

definition same_id :: "json \<Rightarrow> json \<Rightarrow> js_error + bool" where
  "same_id importedEmoji e =
     (case property e ''id'' of
        Inl err \<Rightarrow> Inl err
      | Inr a \<Rightarrow>
          (case property importedEmoji ''id'' of
             Inl err \<Rightarrow> Inl err
           | Inr b \<Rightarrow> Inr (strict_eq a b)))"

text \<open>
  The merge loop over the imported records, with the merged array and \<open>importCount\<close> as
  its state.
\<close>

fun merge_emojis :: "json list \<Rightarrow> json list \<Rightarrow> nat \<Rightarrow> js_error + (json list \<times> nat)" where
  "merge_emojis [] mergedEmojis importCount = Inr (mergedEmojis, importCount)"
| "merge_emojis (importedEmoji # rest) mergedEmojis importCount =
     (case array_findIndex (same_id importedEmoji) mergedEmojis of
        Inl e \<Rightarrow> Inl e
      | Inr (Some existingIndex) \<Rightarrow>
          merge_emojis rest (mergedEmojis[existingIndex := importedEmoji]) importCount
      | Inr None \<Rightarrow>
          merge_emojis rest (mergedEmojis @ [importedEmoji]) (Suc importCount))"

text \<open>
  What the user is told and what the function returns: \<open>Imported a u\<close> is the alert
  ``Successfully imported \<open>a\<close> new emojis and updated \<open>u\<close> existing emojis'' and the
  result \<open>true\<close>; \<open>ImportFailed e\<close> is the alert of the caught error \<open>e\<close> and the result
  \<open>false\<close>.
\<close>

datatype import_report = Imported nat nat | ImportFailed js_error

text \<open>
  The body of the \<open>try\<close>, from the text of the file to the alert of the counts. An
  exception leaves the body with the storage as it is at that point. After the save the
  body rebuilds the picker from \<open>createCustomEmojiData\<close> and renders the manager's list;
  both read the store again, and their exceptions are caught as every other. The widget
  and the page are taken not to throw.
\<close>

definition import_body ::
  "'a emoji_data_scheme \<Rightarrow> storage \<Rightarrow> content
     \<Rightarrow> (js_error \<times> storage) + (import_report \<times> storage)" where
  "import_body data st text_of_file =
     (case JSON_parse text_of_file of
        Inl e \<Rightarrow> Inl (e, st)
      | Inr (JArr importedEmojis) \<Rightarrow>
          (case validate importedEmojis of
             Inl e \<Rightarrow> Inl (e, st)
           | Inr _ \<Rightarrow>
               (case spread (loadCustomEmojis st) of
                  Inl e \<Rightarrow> Inl (e, st)
                | Inr existingEmojis \<Rightarrow>
                    (case merge_emojis importedEmojis existingEmojis 0 of
                       Inl e \<Rightarrow> Inl (e, st)
                     | Inr (mergedEmojis, importCount) \<Rightarrow>
                         (let st' = saveCustomEmojis st mergedEmojis in
                          case createCustomEmojiData data st' of
                            Inl e \<Rightarrow> Inl (e, st')
                          | Inr _ \<Rightarrow>
                              (case updateCustomEmojiList st' of
                                 Inl e \<Rightarrow> Inl (e, st')
                               | Inr _ \<Rightarrow>
                                   Inr (Imported importCount
                                          (length importedEmojis - importCount), st'))))))
      | Inr _ \<Rightarrow> Inl (Error ''Invalid file format: expected array of emojis'', st))"

definition importCustomEmojis ::
  "'a emoji_data_scheme \<Rightarrow> storage \<Rightarrow> content \<Rightarrow> import_report \<times> storage" where
  "importCustomEmojis data st text_of_file =
     (case import_body data st text_of_file of
        Inl (error, st') \<Rightarrow> (ImportFailed error, st')
      | Inr result \<Rightarrow> result)"

text \<open>
  Predicates to state what the store's operations do. A record passes the validation loop
  when it is not \<open>null\<close> and its \<open>id\<close>, \<open>name\<close> and \<open>src\<close> are truthy (for a string:
  not empty). The id of a record is present in a collection when some record of the
  collection has an id strictly equal to it. The storage holds records when a load returns
  an array without \<open>null\<close>. A value is a record when it is not \<open>null\<close> and its \<open>id\<close>,
  \<open>name\<close> and \<open>src\<close>, where it has them, are primitive values (strings, in the store's
  data model).
\<close>

definition valid_record :: "json \<Rightarrow> bool" where
  "valid_record e =
     (e \<noteq> JNull \<and> truthy (field e ''id'') \<and> truthy (field e ''name'') \<and> truthy (field e ''src''))"

definition id_in :: "json list \<Rightarrow> json \<Rightarrow> bool" where
  "id_in existing y = (\<exists>e\<in>set existing. strict_eq (field e ''id'') (field y ''id''))"

definition holds_records :: "storage \<Rightarrow> bool" where
  "holds_records st = (case loadCustomEmojis st of JArr xs \<Rightarrow> JNull \<notin> set xs | _ \<Rightarrow> False)"

definition is_record :: "json \<Rightarrow> bool" where
  "is_record e =
     (e \<noteq> JNull \<and> \<not> by_reference (field e ''id'') \<and> \<not> by_reference (field e ''name'')
      \<and> \<not> by_reference (field e ''src''))"

text \<open>
  The merged result in the words of the specification, to compare the merge loop with:
  the import ``upserts each [record] by \<open>id\<close> against the existing collection''. To
  upsert a record is to put it in the place of the first record of the collection whose id
  is strictly equal to its own, or at the end of the collection when there is none; the
  merged result is what the existing collection becomes when the imported records are
  upserted one after the other, in the order of the file.
\<close>

fun spec_upsert :: "json \<Rightarrow> json list \<Rightarrow> json list" where
  "spec_upsert y [] = [y]"
| "spec_upsert y (x # xs) =
     (if strict_eq (field x ''id'') (field y ''id'') then y # xs else x # spec_upsert y xs)"

definition spec_merged :: "json list \<Rightarrow> json list \<Rightarrow> json list" where
  "spec_merged existing imported =
     foldl (\<lambda>collection y. spec_upsert y collection) existing imported"

section \<open>The insertion engine and the picker\<close>

text \<open>
  The text field: its content and its selection (\<open>None\<close> for an element that reports no
  selection). \<open>setRangeText(text, start, end, 'end')\<close> throws when \<open>start > end\<close>,
  clamps both to the length of the content, replaces the range and leaves the caret after
  the new text.
\<close>

record textarea =
  ta_value :: string
  selectionStart :: "nat option"
  selectionEnd :: "nat option"

definition setRangeText :: "textarea \<Rightarrow> string \<Rightarrow> nat \<Rightarrow> nat \<Rightarrow> js_error + textarea" where
  "setRangeText el replacement start end' =
     (if start > end' then Inl IndexSizeError
      else let s = min start (length (ta_value el));
               e = min end' (length (ta_value el))
           in Inr \<lparr>ta_value = take s (ta_value el) @ replacement @ drop e (ta_value el),
                    selectionStart = Some (s + length replacement),
                    selectionEnd = Some (s + length replacement)\<rparr>)"

text \<open>A value that may be \<open>undefined\<close>, as the text it is inserted as.\<close>

definition text_of :: "string option \<Rightarrow> string" where
  "text_of t = (case t of None \<Rightarrow> ''undefined'' | Some s \<Rightarrow> s)"

definition typeInTextarea :: "string option \<Rightarrow> textarea \<Rightarrow> js_error + textarea" where
  "typeInTextarea newText el =
     (case (selectionStart el, selectionEnd el) of
        (Some start, Some end') \<Rightarrow> setRangeText el (text_of newText) start end'
      | _ \<Rightarrow> Inr (el\<lparr>ta_value := ta_value el @ text_of newText\<rparr>))"

text \<open>
  The descriptor the widget passes to its selection callback: an id, and a native glyph, an
  image source, or both; a field that is absent is \<open>None\<close>. A string is truthy when it is
  there and not empty.
\<close>

record emoji_descriptor =
  emoji_id :: string
  native :: "string option"
  src :: "string option"

definition truthy_string :: "string option \<Rightarrow> bool" where
  "truthy_string s = (case s of None \<Rightarrow> False | Some x \<Rightarrow> x \<noteq> [])"

text \<open>The variable \<open>emojiText\<close> of \<open>insertEmoji\<close>, with the template literal written out.\<close>

definition emojiText :: "emoji_descriptor \<Rightarrow> string option" where
  "emojiText inputEmoji =
     (if truthy_string (src inputEmoji) \<and> \<not> truthy_string (native inputEmoji)
      then Some (''!['' @ emoji_id inputEmoji @ '']('' @ text_of (src inputEmoji) @ '')'')
      else native inputEmoji)"

text \<open>
  The state of the page the handlers act on: the text field, the picker's class
  \<open>displayNone\<close> (the picker is hidden exactly when it has the class), and whether the
  manager panel is displayed. The focus, the position of the popup, the picker's search
  field and the input event sent to the text field are not part of this state.
\<close>

record ui =
  send_textarea :: textarea
  displayNone :: bool
  manager_displayed :: bool

definition insertEmoji :: "ui \<Rightarrow> emoji_descriptor \<Rightarrow> js_error + ui" where
  "insertEmoji u inputEmoji =
     (case typeInTextarea (emojiText inputEmoji) (send_textarea u) of
        Inl e \<Rightarrow> Inl e
      | Inr el \<Rightarrow> Inr (u\<lparr>send_textarea := el, displayNone := True\<rparr>))"

text \<open>
  Where a click lands: on the trigger button, on the manager button, inside the picker,
  or anywhere else on the page.
\<close>

datatype target = AddEmojiButton | ManageButton | InsidePicker | Elsewhere

text \<open>The listener on the button container: the trigger button toggles the picker.\<close>

definition buttonContainer_click :: "ui \<Rightarrow> target \<Rightarrow> ui" where
  "buttonContainer_click u t =
     (if t = AddEmojiButton then u\<lparr>displayNone := \<not> displayNone u\<rparr> else u)"

text \<open>The click listener on the document body.\<close>

definition body_click :: "ui \<Rightarrow> target \<Rightarrow> ui" where
  "body_click u t =
     (if \<not> displayNone u \<and> t \<noteq> InsidePicker \<and> t \<noteq> AddEmojiButton
      then u\<lparr>displayNone := True\<rparr> else u)"

text \<open>The keyup listener on the document body.\<close>

definition body_keyup :: "ui \<Rightarrow> string \<Rightarrow> ui" where
  "body_keyup u key =
     (if \<not> displayNone u \<and> key = ''Escape'' then u\<lparr>displayNone := True\<rparr> else u)"

text \<open>
  The listener on the manager button stops the propagation of its click, so neither the
  container's nor the body's listener sees it.
\<close>

definition manageButton_click :: "ui \<Rightarrow> ui" where
  "manageButton_click u = u\<lparr>manager_displayed := True\<rparr>"

text \<open>
  One event of the page: a click bubbles from its target through the button container
  (when the target is inside it) to the body; the widget calls \<open>insertEmoji\<close> when an
  emoji is selected, and an exception of the callback leaves the page as it was.
\<close>

datatype event = Click target | KeyUp string | EmojiSelect emoji_descriptor

fun step :: "ui \<Rightarrow> event \<Rightarrow> ui" where
  "step u (Click ManageButton) = manageButton_click u"
| "step u (Click t) = body_click (buttonContainer_click u t) t"
| "step u (KeyUp key) = body_keyup u key"
| "step u (EmojiSelect inputEmoji) =
     (case insertEmoji u inputEmoji of Inl e \<Rightarrow> u | Inr u' \<Rightarrow> u')"

section \<open>Examples\<close>

text \<open>
  The stores the scenarios below start from: a storage that holds the collection \<open>rs\<close>
  and has seen no write yet. \<open>store_of\<close> takes every write; \<open>full_store_of\<close> refuses
  every write, as a browser does whose quota is used up.
\<close>

definition store_of :: "json list \<Rightarrow> storage" where
  "store_of rs = \<lparr>slot = Some (Encoded (JArr rs)), accepts = (\<lambda>t. True), setItem_calls = 0\<rparr>"

definition full_store_of :: "json list \<Rightarrow> storage" where
  "full_store_of rs = \<lparr>slot = Some (Encoded (JArr rs)), accepts = (\<lambda>t. False), setItem_calls = 0\<rparr>"

definition empty_store :: storage where
  "empty_store = \<lparr>slot = None, accepts = (\<lambda>t. True), setItem_calls = 0\<rparr>"

text \<open>A record as an import file holds it: the three required fields only.\<close>

definition plain_record :: "string \<Rightarrow> string \<Rightarrow> string \<Rightarrow> json" where
  "plain_record ident name url = JObj [(''id'', JStr ident), (''name'', JStr name), (''src'', JStr url)]"

text \<open>A base dataset with one category and one emoji, and a page whose picker is visible.\<close>

definition base_data :: emoji_data where
  "base_data =
     \<lparr>categories =
        [\<lparr>cat_id = ''people'', cat_name = None, cat_emojis = [Some (JStr ''grinning'')]\<rparr>],
      emojis = [''grinning'' \<mapsto> JObj [(''id'', JStr ''grinning'')]]\<rparr>"

definition visible_page :: ui where
  "visible_page =
     \<lparr>send_textarea = \<lparr>ta_value = ''hi there'', selectionStart = Some 2, selectionEnd = Some 2\<rparr>,
      displayNone = False, manager_displayed = False\<rparr>"

section \<open>Auxiliary facts\<close>

text \<open>A callback that does not throw makes the array method the list function it mirrors.\<close>

lemma property_notnull: "e \<noteq> JNull \<Longrightarrow> property e k = Inr (field e k)"
  by (simp add: property_def)

lemma strict_eq_str: "strict_eq a (Some (JStr s)) = (a = Some (JStr s))"
  by (auto simp: strict_eq_def)

lemma array_some_pure:
  "\<forall>x\<in>set xs. p x = Inr (q x) \<Longrightarrow> array_some p xs = Inr (\<exists>x\<in>set xs. q x)"
  by (induction xs) (auto split: bool.splits)

lemma array_filter_pure:
  "\<forall>x\<in>set xs. p x = Inr (q x) \<Longrightarrow> array_filter p xs = Inr (filter q xs)"
  by (induction xs) auto

lemma array_map_pure:
  "\<forall>x\<in>set xs. f x = Inr (g x) \<Longrightarrow> array_map f xs = Inr (map g xs)"
  by (induction xs) auto

lemma array_findIndex_none:
  "\<forall>x\<in>set xs. p x = Inr False \<Longrightarrow> array_findIndex p xs = Inr None"
  by (induction xs) auto

lemma array_findIndex_first:
  "\<forall>x\<in>set xs. p x = Inr (q x) \<Longrightarrow> i < length xs \<Longrightarrow> q (xs ! i) \<Longrightarrow>
   \<forall>j<i. \<not> q (xs ! j) \<Longrightarrow> array_findIndex p xs = Inr (Some i)"
proof (induction xs arbitrary: i)
  case Nil
  then show ?case by simp
next
  case (Cons x xs)
  show ?case
  proof (cases i)
    case 0
    with Cons.prems show ?thesis by simp
  next
    case (Suc k)
    with Cons.prems have "\<not> q x" by auto
    moreover have "array_findIndex p xs = Inr (Some k)"
      using Cons.prems Suc by (intro Cons.IH) auto
    ultimately show ?thesis using Cons.prems Suc by simp
  qed
qed

lemma array_findIndex_pure:
  "\<forall>x\<in>set xs. p x = Inr (q x) \<Longrightarrow>
   (\<exists>i. array_findIndex p xs = Inr (Some i) \<and> i < length xs \<and> q (xs ! i)
        \<and> (\<forall>j<i. \<not> q (xs ! j)))
   \<or> (array_findIndex p xs = Inr None \<and> (\<forall>x\<in>set xs. \<not> q x))"
proof (induction xs)
  case Nil
  then show ?case by simp
next
  case (Cons x xs)
  show ?case
  proof (cases "q x")
    case True
    with Cons.prems show ?thesis by auto
  next
    case False
    from Cons have
      "(\<exists>i. array_findIndex p xs = Inr (Some i) \<and> i < length xs \<and> q (xs ! i)
            \<and> (\<forall>j<i. \<not> q (xs ! j)))
       \<or> (array_findIndex p xs = Inr None \<and> (\<forall>x\<in>set xs. \<not> q x))"
      by simp
    then show ?thesis
    proof
      assume "\<exists>i. array_findIndex p xs = Inr (Some i) \<and> i < length xs \<and> q (xs ! i)
                \<and> (\<forall>j<i. \<not> q (xs ! j))"
      then obtain i where i: "array_findIndex p xs = Inr (Some i)" "i < length xs"
        "q (xs ! i)" "\<forall>j<i. \<not> q (xs ! j)"
        by blast
      have "\<forall>j<Suc i. \<not> q ((x # xs) ! j)"
        using False i(4) by (auto simp: less_Suc_eq_0_disj)
      with i False Cons.prems show ?thesis by auto
    next
      assume "array_findIndex p xs = Inr None \<and> (\<forall>x\<in>set xs. \<not> q x)"
      with False Cons.prems show ?thesis by auto
    qed
  qed
qed

text \<open>What a save leaves in the storage, and what a load then reads.\<close>

lemma save_fields:
  "accepts (saveCustomEmojis st rs) = accepts st"
  "setItem_calls (saveCustomEmojis st rs) = Suc (setItem_calls st)"
  "slot (saveCustomEmojis st rs) =
     (if accepts st (JSON_stringify (JArr rs)) then Some (JSON_stringify (JArr rs)) else slot st)"
  by (simp_all add: saveCustomEmojis_def setItem_def)

lemma load_save_cases:
  "loadCustomEmojis (saveCustomEmojis st rs) =
     (if accepts st (JSON_stringify (JArr rs)) then JArr rs else loadCustomEmojis st)"
  by (simp add: loadCustomEmojis_def load_body_def saveCustomEmojis_def setItem_def getItem_def
      JSON_stringify_def)

lemma slot_save_twice:
  "slot (saveCustomEmojis (saveCustomEmojis st rs) rs) = slot (saveCustomEmojis st rs)"
  by (simp add: save_fields)

lemma load_store_of: "loadCustomEmojis (store_of rs) = JArr rs"
  by (simp add: store_of_def loadCustomEmojis_def load_body_def getItem_def)

lemma load_full_store_of: "loadCustomEmojis (full_store_of rs) = JArr rs"
  by (simp add: full_store_of_def loadCustomEmojis_def load_body_def getItem_def)

lemma load_empty_store: "loadCustomEmojis empty_store = JArr []"
  by (simp add: empty_store_def loadCustomEmojis_def load_body_def getItem_def)

lemma accepts_store_of:
  "accepts (store_of rs) t = True"
  "accepts (full_store_of rs) t = False"
  "accepts empty_store t = True"
  by (simp_all add: store_of_def full_store_of_def empty_store_def)

lemma save_store_of:
  "saveCustomEmojis (store_of rs) rs' = (store_of rs')\<lparr>setItem_calls := 1\<rparr>"
  by (simp add: store_of_def saveCustomEmojis_def setItem_def JSON_stringify_def)

lemma save_full_store_of:
  "saveCustomEmojis (full_store_of rs) rs' = (full_store_of rs)\<lparr>setItem_calls := 1\<rparr>"
  by (simp add: full_store_of_def saveCustomEmojis_def setItem_def JSON_stringify_def)

text \<open>The callbacks on a record that is not \<open>null\<close>.\<close>

lemma has_id_pure:
  "e \<noteq> JNull \<Longrightarrow> has_id (Some (JStr i)) e = Inr (field e ''id'' = Some (JStr i))"
  by (simp add: has_id_def property_notnull strict_eq_str)

lemma other_id_pure:
  "e \<noteq> JNull \<Longrightarrow> other_id (Some (JStr i)) e = Inr (field e ''id'' \<noteq> Some (JStr i))"
  by (simp add: other_id_def property_notnull strict_eq_str)

lemma duplicate_name_pure:
  "e \<noteq> JNull \<Longrightarrow>
   duplicate_name i n e =
     Inr (field e ''name'' = Some (JStr n) \<and> field e ''id'' \<noteq> Some (JStr i))"
  by (simp add: duplicate_name_def property_notnull strict_eq_str)

lemma same_id_pure:
  "e \<noteq> JNull \<Longrightarrow> y \<noteq> JNull \<Longrightarrow>
   same_id y e = Inr (strict_eq (field e ''id'') (field y ''id''))"
  by (simp add: same_id_def property_notnull)

lemma newEmoji_fields:
  "newEmoji i n u k \<noteq> JNull"
  "JNull \<noteq> newEmoji i n u k"
  "field (newEmoji i n u k) ''id'' = Some (JStr i)"
  "field (newEmoji i n u k) ''name'' = Some (JStr n)"
  "field (newEmoji i n u k) ''src'' = Some (JStr u)"
  by (simp_all add: newEmoji_def)

lemma plain_record_fields:
  "plain_record i n u \<noteq> JNull"
  "JNull \<noteq> plain_record i n u"
  "field (plain_record i n u) ''id'' = Some (JStr i)"
  "field (plain_record i n u) ''name'' = Some (JStr n)"
  "field (plain_record i n u) ''src'' = Some (JStr u)"
  by (simp_all add: plain_record_def)

subsection \<open>Remove and add on a collection of records\<close>

lemma remove_eq:
  assumes "loadCustomEmojis st = JArr xs" "JNull \<notin> set xs"
  shows "removeCustomEmoji st i =
           Inr (True, saveCustomEmojis st (filter (\<lambda>e. field e ''id'' \<noteq> Some (JStr i)) xs))"
proof -
  have "\<forall>x\<in>set xs. other_id (Some (JStr i)) x = Inr (field x ''id'' \<noteq> Some (JStr i))"
    using assms(2) by (auto intro: other_id_pure)
  then have "array_filter (other_id (Some (JStr i))) xs =
               Inr (filter (\<lambda>e. field e ''id'' \<noteq> Some (JStr i)) xs)"
    by (rule array_filter_pure)
  then show ?thesis using assms(1) by (simp add: removeCustomEmoji_def)
qed

lemma add_rejected:
  assumes "loadCustomEmojis st = JArr xs" "JNull \<notin> set xs"
    and "\<exists>e\<in>set xs. field e ''name'' = Some (JStr n) \<and> field e ''id'' \<noteq> Some (JStr i)"
  shows "addCustomEmoji st i n u k = Inr (False, st)"
proof -
  have "\<forall>x\<in>set xs. duplicate_name i n x =
          Inr (field x ''name'' = Some (JStr n) \<and> field x ''id'' \<noteq> Some (JStr i))"
    using assms(2) by (auto intro: duplicate_name_pure)
  then have "array_some (duplicate_name i n) xs =
               Inr (\<exists>e\<in>set xs. field e ''name'' = Some (JStr n) \<and> field e ''id'' \<noteq> Some (JStr i))"
    by (rule array_some_pure)
  with assms(3) have "array_some (duplicate_name i n) xs = Inr True" by simp
  then show ?thesis using assms(1) by (simp add: addCustomEmoji_def)
qed

lemma add_not_rejected:
  assumes "loadCustomEmojis st = JArr xs" "JNull \<notin> set xs"
    and "\<forall>e\<in>set xs. field e ''name'' = Some (JStr n) \<longrightarrow> field e ''id'' = Some (JStr i)"
  shows "addCustomEmoji st i n u k = addCustomEmoji_src st i n u k"
proof -
  have "\<forall>x\<in>set xs. duplicate_name i n x =
          Inr (field x ''name'' = Some (JStr n) \<and> field x ''id'' \<noteq> Some (JStr i))"
    using assms(2) by (auto intro: duplicate_name_pure)
  then have "array_some (duplicate_name i n) xs =
               Inr (\<exists>e\<in>set xs. field e ''name'' = Some (JStr n) \<and> field e ''id'' \<noteq> Some (JStr i))"
    by (rule array_some_pure)
  with assms(3) have "array_some (duplicate_name i n) xs = Inr False" by auto
  then show ?thesis using assms(1) by (simp add: addCustomEmoji_def addCustomEmoji_src_def)
qed

lemma add_src_replace:
  assumes "loadCustomEmojis st = JArr xs" "JNull \<notin> set xs"
    and "p < length xs" "field (xs ! p) ''id'' = Some (JStr i)"
    and "\<forall>j<p. field (xs ! j) ''id'' \<noteq> Some (JStr i)"
  shows "addCustomEmoji_src st i n u k =
           Inr (True, saveCustomEmojis st (xs[p := newEmoji i n u k]))"
proof -
  have "\<forall>x\<in>set xs. has_id (Some (JStr i)) x = Inr (field x ''id'' = Some (JStr i))"
    using assms(2) by (auto intro: has_id_pure)
  then have "array_findIndex (has_id (Some (JStr i))) xs = Inr (Some p)"
    using assms(3,4,5) by (rule array_findIndex_first)
  then show ?thesis using assms(1) by (simp add: addCustomEmoji_src_def)
qed

lemma add_src_append:
  assumes "loadCustomEmojis st = JArr xs" "JNull \<notin> set xs"
    and "\<forall>e\<in>set xs. field e ''id'' \<noteq> Some (JStr i)"
  shows "addCustomEmoji_src st i n u k =
           Inr (True, saveCustomEmojis st (xs @ [newEmoji i n u k]))"
proof -
  have "\<forall>x\<in>set xs. has_id (Some (JStr i)) x = Inr (field x ''id'' = Some (JStr i))"
    using assms(2) by (auto intro: has_id_pure)
  with assms(3) have "\<forall>x\<in>set xs. has_id (Some (JStr i)) x = Inr False"
    by simp
  then have "array_findIndex (has_id (Some (JStr i))) xs = Inr None"
    by (rule array_findIndex_none)
  then show ?thesis using assms(1) by (simp add: addCustomEmoji_src_def)
qed

lemma add_src_cases:
  assumes "loadCustomEmojis st = JArr xs" "JNull \<notin> set xs"
  shows "\<exists>saved. addCustomEmoji_src st i n u k = Inr (True, saveCustomEmojis st saved)
           \<and> (((\<forall>e\<in>set xs. field e ''id'' \<noteq> Some (JStr i))
                  \<and> saved = xs @ [newEmoji i n u k])
              \<or> (\<exists>p<length xs. field (xs ! p) ''id'' = Some (JStr i)
                  \<and> (\<forall>j<p. field (xs ! j) ''id'' \<noteq> Some (JStr i))
                  \<and> saved = xs[p := newEmoji i n u k]))"
proof -
  have "\<forall>x\<in>set xs. has_id (Some (JStr i)) x = Inr (field x ''id'' = Some (JStr i))"
    using assms(2) by (auto intro: has_id_pure)
  from array_findIndex_pure[OF this]
  consider (found) p where "p < length xs" "field (xs ! p) ''id'' = Some (JStr i)"
      "\<forall>j<p. field (xs ! j) ''id'' \<noteq> Some (JStr i)"
    | (absent) "\<forall>e\<in>set xs. field e ''id'' \<noteq> Some (JStr i)"
    by blast
  then show ?thesis
  proof cases
    case found
    with assms have "addCustomEmoji_src st i n u k =
        Inr (True, saveCustomEmojis st (xs[p := newEmoji i n u k]))"
      by (intro add_src_replace)
    with found show ?thesis by auto
  next
    case absent
    with assms have "addCustomEmoji_src st i n u k =
        Inr (True, saveCustomEmojis st (xs @ [newEmoji i n u k]))"
      by (intro add_src_append)
    with absent show ?thesis by auto
  qed
qed

text \<open>A save of values that are not \<open>null\<close> keeps the storage holding records.\<close>

lemma holds_records_iff:
  "holds_records st = (\<exists>xs. loadCustomEmojis st = JArr xs \<and> JNull \<notin> set xs)"
  by (auto simp: holds_records_def split: json.splits)

lemma holds_records_save:
  "holds_records st \<Longrightarrow> JNull \<notin> set rs \<Longrightarrow> holds_records (saveCustomEmojis st rs)"
  by (simp add: holds_records_def load_save_cases)

subsection \<open>The import\<close>

lemma id_in_ids:
  "id_in m y = (\<exists>a\<in>set (map (\<lambda>e. field e ''id'') m). strict_eq a (field y ''id''))"
  by (auto simp: id_in_def)

lemma merge_step:
  assumes "y \<noteq> JNull" "JNull \<notin> set m"
  shows "(\<exists>i. array_findIndex (same_id y) m = Inr (Some i) \<and> i < length m
              \<and> strict_eq (field (m ! i) ''id'') (field y ''id''))
       \<or> (array_findIndex (same_id y) m = Inr None \<and> \<not> id_in m y)"
proof -
  have "\<forall>e\<in>set m. same_id y e = Inr (strict_eq (field e ''id'') (field y ''id''))"
    using assms by (auto intro: same_id_pure)
  from array_findIndex_pure[OF this] show ?thesis by (auto simp: id_in_def)
qed

text \<open>
  The loop on imported records whose ids are pairwise distinct: a record counts as new
  exactly when its id is not in the collection the loop started from.
\<close>

lemma merge_counts:
  "JNull \<notin> set ys \<Longrightarrow> JNull \<notin> set m \<Longrightarrow> distinct (map (\<lambda>e. field e ''id'') ys) \<Longrightarrow>
   \<exists>merged. merge_emojis ys m c = Inr (merged, c + length (filter (\<lambda>y. \<not> id_in m y) ys))
      \<and> length merged = length m + length (filter (\<lambda>y. \<not> id_in m y) ys)
      \<and> JNull \<notin> set merged"
proof (induction ys arbitrary: m c)
  case Nil
  then show ?case by simp
next
  case (Cons y ys)
  have y: "y \<noteq> JNull" and ys: "JNull \<notin> set ys" using Cons.prems(1) by auto
  have d: "distinct (map (\<lambda>e. field e ''id'') ys)" and
       fresh: "\<forall>y'\<in>set ys. field y' ''id'' \<noteq> field y ''id''"
    using Cons.prems(3) by (auto simp: image_iff)
  from merge_step[OF y Cons.prems(2)] show ?case
  proof
    assume "\<exists>i. array_findIndex (same_id y) m = Inr (Some i) \<and> i < length m
              \<and> strict_eq (field (m ! i) ''id'') (field y ''id'')"
    then obtain i where i: "array_findIndex (same_id y) m = Inr (Some i)" "i < length m"
      "strict_eq (field (m ! i) ''id'') (field y ''id'')"
      by blast
    let ?m = "m[i := y]"
    have same: "field (m ! i) ''id'' = field y ''id''"
      using i(3) by (simp add: strict_eq_def)
    have ids: "map (\<lambda>e. field e ''id'') ?m = map (\<lambda>e. field e ''id'') m"
      using i(2) same by (simp add: map_update list_update_same_conv)
    have inm: "id_in m y" using i(2,3) by (auto simp: id_in_def)
    have eq: "\<And>y'. id_in ?m y' = id_in m y'" by (simp only: id_in_ids ids)
    have nn: "JNull \<notin> set ?m"
      using y Cons.prems(2) by (auto dest: subsetD[OF set_update_subset_insert])
    from Cons.IH[OF ys nn d, of c] obtain merged where
      "merge_emojis ys ?m c = Inr (merged, c + length (filter (\<lambda>y. \<not> id_in ?m y) ys))"
      "length merged = length ?m + length (filter (\<lambda>y. \<not> id_in ?m y) ys)"
      "JNull \<notin> set merged"
      by blast
    then show ?thesis using i(1) inm eq by simp
  next
    assume a: "array_findIndex (same_id y) m = Inr None \<and> \<not> id_in m y"
    let ?m = "m @ [y]"
    have nn: "JNull \<notin> set ?m" using y Cons.prems(2) by simp
    have eq: "\<forall>y'\<in>set ys. id_in ?m y' = id_in m y'"
      using fresh by (auto simp: id_in_def strict_eq_def)
    then have f: "filter (\<lambda>y. \<not> id_in ?m y) ys = filter (\<lambda>y. \<not> id_in m y) ys"
      by (intro filter_cong) auto
    from Cons.IH[OF ys nn d, of "Suc c"] obtain merged where
      "merge_emojis ys ?m (Suc c) =
         Inr (merged, Suc c + length (filter (\<lambda>y. \<not> id_in ?m y) ys))"
      "length merged = length ?m + length (filter (\<lambda>y. \<not> id_in ?m y) ys)"
      "JNull \<notin> set merged"
      by blast
    then show ?thesis using a f by simp
  qed
qed

text \<open>The loop never throws on records that are not \<open>null\<close>.\<close>

lemma merge_total:
  "JNull \<notin> set ys \<Longrightarrow> JNull \<notin> set m \<Longrightarrow>
   \<exists>merged a. merge_emojis ys m c = Inr (merged, a) \<and> JNull \<notin> set merged"
proof (induction ys arbitrary: m c)
  case Nil
  then show ?case by simp
next
  case (Cons y ys)
  have y: "y \<noteq> JNull" and ys: "JNull \<notin> set ys" using Cons.prems(1) by auto
  from merge_step[OF y Cons.prems(2)] show ?case
  proof
    assume "\<exists>i. array_findIndex (same_id y) m = Inr (Some i) \<and> i < length m
              \<and> strict_eq (field (m ! i) ''id'') (field y ''id'')"
    then obtain i where i: "array_findIndex (same_id y) m = Inr (Some i)" by blast
    have nn: "JNull \<notin> set (m[i := y])"
      using y Cons.prems(2) by (auto dest: subsetD[OF set_update_subset_insert])
    from Cons.IH[OF ys nn, of c] show ?thesis using i by simp
  next
    assume a: "array_findIndex (same_id y) m = Inr None \<and> \<not> id_in m y"
    have nn: "JNull \<notin> set (m @ [y])" using y Cons.prems(2) by simp
    from Cons.IH[OF ys nn, of "Suc c"] show ?thesis using a by simp
  qed
qed





lemma spec_merged_Cons: "spec_merged m (y # ys) = spec_merged (spec_upsert y m) ys"
  by (simp add: spec_merged_def)


text \<open>
  What the merged result holds: a record of the collection whose id no imported record
  has, and every imported record when the imported ids are pairwise distinct.
\<close>


lemma spec_upsert_holds: "y \<in> set (spec_upsert y m)"
  by (induction m) auto

lemma spec_upsert_keeps:
  "x \<in> set m \<Longrightarrow> \<not> strict_eq (field x ''id'') (field y ''id'') \<Longrightarrow> x \<in> set (spec_upsert y m)"
  by (induction m) auto

lemma spec_merged_keeps:
  "x \<in> set m \<Longrightarrow> \<forall>y\<in>set ys. \<not> strict_eq (field x ''id'') (field y ''id'') \<Longrightarrow>
   x \<in> set (spec_merged m ys)"
proof (induction ys arbitrary: m)
  case Nil
  then show ?case by (simp add: spec_merged_def)
next
  case (Cons y ys)
  have "x \<in> set (spec_upsert y m)" using Cons.prems by (intro spec_upsert_keeps) auto
  then have "x \<in> set (spec_merged (spec_upsert y m) ys)" using Cons.prems by (intro Cons.IH) auto
  then show ?case by (simp add: spec_merged_Cons)
qed

lemma spec_merged_holds:
  "distinct (map (\<lambda>y. field y ''id'') ys) \<Longrightarrow> set ys \<subseteq> set (spec_merged m ys)"
proof (induction ys arbitrary: m)
  case Nil
  then show ?case by simp
next
  case (Cons y ys)
  have d: "distinct (map (\<lambda>y. field y ''id'') ys)" and
       fresh: "\<forall>y'\<in>set ys. field y' ''id'' \<noteq> field y ''id''"
    using Cons.prems by (auto simp: image_iff)
  have "y \<in> set (spec_upsert y m)" by (rule spec_upsert_holds)
  moreover have "\<forall>y'\<in>set ys. \<not> strict_eq (field y ''id'') (field y' ''id'')"
    using fresh by (auto simp: strict_eq_def)
  ultimately have "y \<in> set (spec_merged (spec_upsert y m) ys)" by (rule spec_merged_keeps)
  moreover have "set ys \<subseteq> set (spec_merged (spec_upsert y m) ys)" using d by (rule Cons.IH)
  ultimately show ?case by (simp add: spec_merged_Cons)
qed

text \<open>Numbers as property keys and in template literals.\<close>

lemma number_to_string_examples:
  "number_to_string 0 = ''0''"
  "number_to_string (- 42) = ''-42''"
  "number_to_string (10 ^ 21 - 1) = ''999999999999999999999''"
  "number_to_string (10 ^ 21) = ''1e+21''"
  "number_to_string 1180591620717411300000 = ''1.1805916207174113e+21''"
  by (simp_all add: number_to_string_def natural_to_string_def exponent_form_def strip_zeros_def)

lemma missing_required_eq:
  "missing_required e = (if e = JNull then Inl TypeError else Inr (\<not> valid_record e))"
  by (auto simp: missing_required_def property_def valid_record_def)

lemma validate_ok: "\<forall>e\<in>set ys. valid_record e \<Longrightarrow> validate ys = Inr ()"
  by (induction ys) (auto simp: missing_required_eq valid_record_def)

lemma validate_fails: "\<exists>e\<in>set ys. \<not> valid_record e \<Longrightarrow> \<exists>err. validate ys = Inl err"
  by (induction ys) (auto simp: missing_required_eq split: sum.splits bool.splits)

lemma valid_notnull: "\<forall>e\<in>set ys. valid_record e \<Longrightarrow> JNull \<notin> set ys"
  by (auto simp: valid_record_def)

lemma valid_plain_record: "n \<noteq> [] \<Longrightarrow> i \<noteq> [] \<Longrightarrow> u \<noteq> [] \<Longrightarrow> valid_record (plain_record i n u)"
  by (simp add: valid_record_def plain_record_def)

subsection \<open>String conversion, the table of the custom records and the manager's list\<close>

lemma ToString_primitive: "\<not> by_reference v \<Longrightarrow> \<exists>s. ToString v = Inr s"
proof (cases v)
  case None
  then show ?thesis by (simp add: ToString_def)
next
  case (Some j)
  assume "\<not> by_reference v"
  with Some show ?thesis by (cases j) (simp_all add: ToString_def)
qed

lemma ToString_str: "ToString (Some (JStr s)) = Inr s"
  by (simp add: ToString_def)

lemma emoji_table_other:
  "\<forall>e\<in>set xs. e \<noteq> JNull \<and> \<not> by_reference (field e ''id'') \<Longrightarrow>
   \<exists>t. emoji_table xs acc = Inr t
      \<and> (\<forall>k. (\<forall>e\<in>set xs. ToString (field e ''id'') \<noteq> Inr k) \<longrightarrow> t k = acc k)"
proof (induction xs arbitrary: acc)
  case Nil
  then show ?case by simp
next
  case (Cons x xs)
  have x: "x \<noteq> JNull" "\<not> by_reference (field x ''id'')"
    and xs: "\<forall>e\<in>set xs. e \<noteq> JNull \<and> \<not> by_reference (field e ''id'')"
    using Cons.prems by auto
  from ToString_primitive[OF x(2)] obtain s where s: "ToString (field x ''id'') = Inr s"
    by blast
  let ?acc = "if s = ''__proto__'' then acc else acc(s \<mapsto> x)"
  have as: "assign acc (field x ''id'') x = Inr ?acc"
    by (simp add: assign_def s)
  from Cons.IH[OF xs, of ?acc] obtain t where
    t: "emoji_table xs ?acc = Inr t"
       "\<forall>k. (\<forall>e\<in>set xs. ToString (field e ''id'') \<noteq> Inr k) \<longrightarrow> t k = ?acc k"
    by blast
  have "emoji_table (x # xs) acc = Inr t"
    using x(1) as t(1) by (simp add: property_notnull)
  moreover have "\<forall>k. (\<forall>e\<in>set (x # xs). ToString (field e ''id'') \<noteq> Inr k) \<longrightarrow> t k = acc k"
    using t(2) s by auto
  ultimately show ?case by blast
qed

lemma createCustomEmojiData_eq:
  assumes "loadCustomEmojis st = JArr xs" "xs \<noteq> []"
    and "\<forall>e\<in>set xs. e \<noteq> JNull \<and> \<not> by_reference (field e ''id'')"
  shows "\<exists>t. createCustomEmojiData d st =
               Inr (d\<lparr>categories := categories d @
                        [\<lparr>cat_id = ''custom'', cat_name = Some ''Custom'',
                          cat_emojis = map (\<lambda>e. field e ''id'') xs\<rparr>],
                      emojis := emojis d ++ t\<rparr>)
            \<and> (\<forall>k. (\<forall>e\<in>set xs. ToString (field e ''id'') \<noteq> Inr k) \<longrightarrow> t k = None)"
proof -
  have len: "\<not> strict_eq (Some (JNum (int (length xs)))) (Some (JNum 0))"
    using assms(2) by (simp add: strict_eq_def)
  have "\<forall>x\<in>set xs. property x ''id'' = Inr (field x ''id'')"
    using assms(3) by (auto intro: property_notnull)
  then have ids: "array_map (\<lambda>emoji. property emoji ''id'') xs
                    = Inr (map (\<lambda>e. field e ''id'') xs)"
    by (rule array_map_pure)
  from emoji_table_other[OF assms(3), of Map.empty] obtain t where
    t: "emoji_table xs Map.empty = Inr t"
       "\<forall>k. (\<forall>e\<in>set xs. ToString (field e ''id'') \<noteq> Inr k) \<longrightarrow> t k = None"
    by auto
  have "createCustomEmojiData d st =
          Inr (d\<lparr>categories := categories d @
                   [\<lparr>cat_id = ''custom'', cat_name = Some ''Custom'',
                     cat_emojis = map (\<lambda>e. field e ''id'') xs\<rparr>],
                 emojis := emojis d ++ t\<rparr>)"
    using assms(1) len ids t(1)
    by (simp add: createCustomEmojiData_def property_def CUSTOM_EMOJI_CATEGORY_def)
  with t(2) show ?thesis by blast
qed

lemma createCustomEmojiData_empty:
  "loadCustomEmojis st = JArr [] \<Longrightarrow> createCustomEmojiData d st = Inr d"
  by (simp add: createCustomEmojiData_def property_def strict_eq_def)

lemma createCustomEmojiData_returns:
  assumes "loadCustomEmojis st = JArr xs" and "\<forall>e\<in>set xs. is_record e"
  shows "\<exists>d'. createCustomEmojiData d st = Inr d'"
proof (cases "xs = []")
  case True
  with assms(1) show ?thesis by (simp add: createCustomEmojiData_empty)
next
  case False
  have "\<forall>e\<in>set xs. e \<noteq> JNull \<and> \<not> by_reference (field e ''id'')"
    using assms(2) by (simp add: is_record_def)
  from createCustomEmojiData_eq[OF assms(1) False this, of d] show ?thesis by blast
qed

lemma list_item_returns: "is_record e \<Longrightarrow> \<exists>item. list_item e = Inr item"
proof -
  assume r: "is_record e"
  then obtain s n i where "ToString (field e ''src'') = Inr s" "ToString (field e ''name'') = Inr n"
    "ToString (field e ''id'') = Inr i"
    unfolding is_record_def using ToString_primitive by blast
  with r show ?thesis by (simp add: list_item_def is_record_def property_notnull)
qed

lemma array_map_returns:
  "\<forall>x\<in>set xs. \<exists>y. f x = Inr y \<Longrightarrow> \<exists>ys. array_map f xs = Inr ys"
proof (induction xs)
  case Nil
  then show ?case by simp
next
  case (Cons x xs)
  then obtain y ys where "f x = Inr y" "array_map f xs = Inr ys" by auto
  then show ?case by simp
qed

lemma updateCustomEmojiList_returns:
  assumes "loadCustomEmojis st = JArr xs" and "\<forall>e\<in>set xs. is_record e"
  shows "\<exists>items. updateCustomEmojiList st = Inr items"
proof -
  have "\<forall>x\<in>set xs. \<exists>y. list_item x = Inr y"
    using assms(2) list_item_returns by blast
  from array_map_returns[OF this] show ?thesis
    using assms(1) by (simp add: updateCustomEmojiList_def)
qed

subsection \<open>The import as a whole\<close>

lemma import_fails_not_array:
  assumes "\<forall>ys. payload \<noteq> Encoded (JArr ys)"
  shows "\<exists>err. importCustomEmojis d st payload = (ImportFailed err, st)"
proof (cases payload)
  case Blank
  then show ?thesis by (simp add: importCustomEmojis_def import_body_def)
next
  case Malformed
  then show ?thesis by (simp add: importCustomEmojis_def import_body_def)
next
  case (Encoded v)
  with assms have "\<forall>ys. v \<noteq> JArr ys" by simp
  with Encoded show ?thesis
    by (cases v) (simp_all add: importCustomEmojis_def import_body_def)
qed

lemma import_fails_invalid:
  assumes "\<exists>e\<in>set ys. \<not> valid_record e"
  shows "\<exists>err. importCustomEmojis d st (Encoded (JArr ys)) = (ImportFailed err, st)"
proof -
  from validate_fails[OF assms] obtain err where "validate ys = Inl err" by blast
  then show ?thesis by (simp add: importCustomEmojis_def import_body_def)
qed

text \<open>The storage after an import that reaches the save, whatever the refresh does.\<close>

lemma import_state:
  assumes "\<forall>e\<in>set ys. valid_record e" "loadCustomEmojis st = JArr xs"
    and "merge_emojis ys xs 0 = Inr (merged, a)"
  shows "snd (importCustomEmojis d st (Encoded (JArr ys))) = saveCustomEmojis st merged"
  using assms
  by (simp add: importCustomEmojis_def import_body_def validate_ok Let_def split: sum.splits)

lemma merge_subset:
  "merge_emojis ys m c = Inr (merged, a) \<Longrightarrow> set merged \<subseteq> set ys \<union> set m"
proof (induction ys arbitrary: m c)
  case Nil
  then show ?case by simp
next
  case (Cons y ys)
  show ?case
  proof (cases "array_findIndex (same_id y) m")
    case (Inl e)
    with Cons.prems show ?thesis by simp
  next
    case (Inr r)
    show ?thesis
    proof (cases r)
      case None
      with Inr Cons.prems have "merge_emojis ys (m @ [y]) (Suc c) = Inr (merged, a)" by simp
      from Cons.IH[OF this] show ?thesis by auto
    next
      case (Some i)
      with Inr Cons.prems have "merge_emojis ys (m[i := y]) c = Inr (merged, a)" by simp
      from Cons.IH[OF this] have "set merged \<subseteq> set ys \<union> set (m[i := y])" .
      moreover have "set (m[i := y]) \<subseteq> insert y (set m)" by (rule set_update_subset_insert)
      ultimately show ?thesis by auto
    qed
  qed
qed

text \<open>The report of an import of records into a collection of records.\<close>

lemma import_ok:
  assumes "\<forall>e\<in>set ys. valid_record e" "\<forall>e\<in>set ys. is_record e"
    and "loadCustomEmojis st = JArr xs" "\<forall>e\<in>set xs. is_record e"
    and "merge_emojis ys xs 0 = Inr (merged, a)"
  shows "importCustomEmojis d st (Encoded (JArr ys)) =
           (Imported a (length ys - a), saveCustomEmojis st merged)"
proof -
  let ?st = "saveCustomEmojis st merged"
  have m: "\<forall>e\<in>set merged. is_record e"
    using merge_subset[OF assms(5)] assms(2,4) by auto
  obtain zs where zs: "loadCustomEmojis ?st = JArr zs" "\<forall>e\<in>set zs. is_record e"
    using m assms(3,4) by (cases "accepts st (JSON_stringify (JArr merged))")
      (simp_all add: load_save_cases)
  from createCustomEmojiData_returns[OF zs, of d] obtain d' where
    "createCustomEmojiData d ?st = Inr d'" by blast
  moreover from updateCustomEmojiList_returns[OF zs] obtain items where
    "updateCustomEmojiList ?st = Inr items" by blast
  ultimately show ?thesis
    using assms(1,3,5)
    by (simp add: importCustomEmojis_def import_body_def validate_ok Let_def)
qed

lemma is_record_notnull: "\<forall>e\<in>set xs. is_record e \<Longrightarrow> JNull \<notin> set xs"
  by (auto simp: is_record_def)

lemma is_record_plain_record: "is_record (plain_record i n u)"
  by (simp add: is_record_def plain_record_def)

lemma is_record_newEmoji: "is_record (newEmoji i n u k)"
  by (simp add: is_record_def newEmoji_def)

section \<open>The store: load, save and remove\<close>

text \<open>
  C8. \<open>loadCustomEmojis\<close> never raises to its caller (it has no error result): when the
  slot is absent it returns the empty collection, when the stored string fails to decode
  it returns the empty collection, and a successfully decoded array is returned as it is.
\<close>

theorem loadCustomEmojis_never_raises:
  "(slot st = None \<longrightarrow> loadCustomEmojis st = JArr [])
   \<and> (\<forall>t e. slot st = Some t \<and> JSON_parse t = Inl e \<longrightarrow> loadCustomEmojis st = JArr [])
   \<and> (\<forall>t xs. slot st = Some t \<and> JSON_parse t = Inr (JArr xs) \<longrightarrow> loadCustomEmojis st = JArr xs)"
  by (auto simp: loadCustomEmojis_def load_body_def getItem_def)

theorem loadCustomEmojis_never_raises_witness:
  "loadCustomEmojis \<lparr>slot = None, accepts = (\<lambda>t. True), setItem_calls = 0\<rparr> = JArr []
   \<and> loadCustomEmojis \<lparr>slot = Some Malformed, accepts = (\<lambda>t. True), setItem_calls = 0\<rparr> = JArr []
   \<and> loadCustomEmojis \<lparr>slot = Some (Encoded (JArr [JStr ''x''])), accepts = (\<lambda>t. True),
        setItem_calls = 0\<rparr> = JArr [JStr ''x'']"
  using loadCustomEmojis_never_raises
          [of "\<lparr>slot = None, accepts = (\<lambda>t. True), setItem_calls = 0\<rparr>"]
        loadCustomEmojis_never_raises
          [of "\<lparr>slot = Some Malformed, accepts = (\<lambda>t. True), setItem_calls = 0\<rparr>"]
        loadCustomEmojis_never_raises
          [of "\<lparr>slot = Some (Encoded (JArr [JStr ''x''])), accepts = (\<lambda>t. True),
                 setItem_calls = 0\<rparr>"]
  by simp

text \<open>
  C6, as amended. For every list of records, saving it and then loading yields the saved
  list, with the records in the same order, provided the browser accepts the write. As
  stated, for every save, the claim fails: when \<open>setItem\<close> throws, \<open>saveCustomEmojis\<close>
  catches the exception and the next load returns what the slot held before.
\<close>

theorem load_after_save:
  "accepts st (JSON_stringify (JArr rs)) \<Longrightarrow> loadCustomEmojis (saveCustomEmojis st rs) = JArr rs"
  by (simp add: load_save_cases)

theorem load_after_save_witness:
  "loadCustomEmojis (saveCustomEmojis empty_store [newEmoji ''wave'' ''Wave'' ''https://x/y.png'' []])
     = JArr [newEmoji ''wave'' ''Wave'' ''https://x/y.png'' []]"
proof -
  have "accepts empty_store
          (JSON_stringify (JArr [newEmoji ''wave'' ''Wave'' ''https://x/y.png'' []]))"
    by (simp add: accepts_store_of)
  then show ?thesis by (rule load_after_save)
qed

theorem load_after_refused_save:
  "loadCustomEmojis
     (saveCustomEmojis (full_store_of []) [newEmoji ''wave'' ''Wave'' ''https://x/y.png'' []])
     = JArr []
   \<and> loadCustomEmojis
     (saveCustomEmojis (full_store_of []) [newEmoji ''wave'' ''Wave'' ''https://x/y.png'' []])
     \<noteq> JArr [newEmoji ''wave'' ''Wave'' ''https://x/y.png'' []]"
  by (simp add: load_save_cases accepts_store_of load_full_store_of newEmoji_fields)

text \<open>
  C10. On a stored collection of records, \<open>removeCustomEmoji\<close> returns \<open>true\<close> for every
  id, whether or not the write is accepted. It saves the collection without every record
  whose id is the argument, so none of them is left in what it saves, and an accepted write
  leaves exactly that collection. When no record has the id, the collection a load returns
  is what it was. Removing the same id a second time returns \<open>true\<close> again and leaves the
  slot, and so the collection, as the first removal left it.
\<close>

theorem removeCustomEmoji_always_true:
  assumes "loadCustomEmojis st = JArr xs" and "JNull \<notin> set xs"
  shows "\<exists>st' kept.
           kept = filter (\<lambda>e. field e ''id'' \<noteq> Some (JStr i)) xs
         \<and> removeCustomEmoji st i = Inr (True, st')
         \<and> st' = saveCustomEmojis st kept
         \<and> (\<forall>e\<in>set kept. field e ''id'' \<noteq> Some (JStr i))
         \<and> (accepts st (JSON_stringify (JArr kept)) \<longrightarrow> loadCustomEmojis st' = JArr kept)
         \<and> ((\<forall>e\<in>set xs. field e ''id'' \<noteq> Some (JStr i)) \<longrightarrow>
              loadCustomEmojis st' = loadCustomEmojis st)
         \<and> (\<exists>st''. removeCustomEmoji st' i = Inr (True, st'') \<and> slot st'' = slot st'
                \<and> loadCustomEmojis st'' = loadCustomEmojis st')"
proof -
  let ?f = "filter (\<lambda>e. field e ''id'' \<noteq> Some (JStr i)) xs"
  let ?st' = "saveCustomEmojis st ?f"
  have r1: "removeCustomEmoji st i = Inr (True, ?st')"
    using assms by (rule remove_eq)
  have gone: "\<forall>e\<in>set ?f. field e ''id'' \<noteq> Some (JStr i)"
    by simp
  have written: "accepts st (JSON_stringify (JArr ?f)) \<longrightarrow> loadCustomEmojis ?st' = JArr ?f"
    by (simp add: load_save_cases)
  have unchanged: "(\<forall>e\<in>set xs. field e ''id'' \<noteq> Some (JStr i)) \<longrightarrow>
                     loadCustomEmojis ?st' = loadCustomEmojis st"
  proof
    assume "\<forall>e\<in>set xs. field e ''id'' \<noteq> Some (JStr i)"
    then have "?f = xs" by (simp add: filter_id_conv)
    then show "loadCustomEmojis ?st' = loadCustomEmojis st"
      using assms(1) by (simp add: load_save_cases)
  qed
  have twice: "\<exists>st''. removeCustomEmoji ?st' i = Inr (True, st'') \<and> slot st'' = slot ?st'
                 \<and> loadCustomEmojis st'' = loadCustomEmojis ?st'"
  proof (cases "accepts st (JSON_stringify (JArr ?f))")
    case True
    then have l: "loadCustomEmojis ?st' = JArr ?f" by (simp add: load_save_cases)
    have "JNull \<notin> set ?f" using assms(2) by simp
    with l have "removeCustomEmoji ?st' i =
        Inr (True, saveCustomEmojis ?st' (filter (\<lambda>e. field e ''id'' \<noteq> Some (JStr i)) ?f))"
      by (rule remove_eq)
    then have r2: "removeCustomEmoji ?st' i = Inr (True, saveCustomEmojis ?st' ?f)" by simp
    have "slot (saveCustomEmojis ?st' ?f) = slot ?st'" by (rule slot_save_twice)
    moreover have "loadCustomEmojis (saveCustomEmojis ?st' ?f) = loadCustomEmojis ?st'"
      using True l by (simp add: load_save_cases save_fields)
    ultimately show ?thesis using r2 by blast
  next
    case False
    then have l: "loadCustomEmojis ?st' = JArr xs" using assms(1) by (simp add: load_save_cases)
    from l assms(2) have r2: "removeCustomEmoji ?st' i = Inr (True, saveCustomEmojis ?st' ?f)"
      by (rule remove_eq)
    have "slot (saveCustomEmojis ?st' ?f) = slot ?st'" by (rule slot_save_twice)
    moreover have "loadCustomEmojis (saveCustomEmojis ?st' ?f) = loadCustomEmojis ?st'"
      using False l by (simp add: load_save_cases save_fields)
    ultimately show ?thesis using r2 by blast
  qed
  from r1 gone written unchanged twice show ?thesis by blast
qed

theorem removeCustomEmoji_always_true_witness:
  "removeCustomEmoji
     (full_store_of [newEmoji ''a'' ''A'' ''u'' [], newEmoji ''b'' ''B'' ''v'' [],
                     newEmoji ''a'' ''C'' ''w'' []]) ''a''
   = Inr (True,
          (full_store_of [newEmoji ''a'' ''A'' ''u'' [], newEmoji ''b'' ''B'' ''v'' [],
                          newEmoji ''a'' ''C'' ''w'' []])\<lparr>setItem_calls := 1\<rparr>)
   \<and> removeCustomEmoji
     (store_of [newEmoji ''a'' ''A'' ''u'' [], newEmoji ''b'' ''B'' ''v'' [],
                newEmoji ''a'' ''C'' ''w'' []]) ''a''
   = Inr (True, (store_of [newEmoji ''b'' ''B'' ''v'' []])\<lparr>setItem_calls := 1\<rparr>)"
proof -
  let ?xs = "[newEmoji ''a'' ''A'' ''u'' [], newEmoji ''b'' ''B'' ''v'' [],
              newEmoji ''a'' ''C'' ''w'' []]"
  have l1: "loadCustomEmojis (full_store_of ?xs) = JArr ?xs" by (rule load_full_store_of)
  have l2: "loadCustomEmojis (store_of ?xs) = JArr ?xs" by (rule load_store_of)
  have n: "JNull \<notin> set ?xs" by (simp add: newEmoji_fields)
  show ?thesis
    using removeCustomEmoji_always_true [OF l1 n, of "''a''"]
          removeCustomEmoji_always_true [OF l2 n, of "''a''"]
    by (simp add: newEmoji_fields save_store_of save_full_store_of)
qed

section \<open>The store: add\<close>

text \<open>
  C1. A call of add whose name is used by a record with another id must return \<open>false\<close>
  and leave the persisted collection as it was. \<open>addCustomEmoji\<close> of \<open>src/index.js\<close> has
  no such check: on a store that holds one record named Wave under the id \<open>a\<close>, adding
  the id \<open>b\<close> under the name Wave returns \<open>true\<close> and appends a second record named
  Wave. The \<open>addCustomEmoji\<close> with the duplicate-name check rejects the same call and
  leaves the store as it was.
\<close>

theorem addCustomEmoji_src_accepts_duplicate_name:
  "addCustomEmoji_src (store_of [newEmoji ''a'' ''Wave'' ''u'' []]) ''b'' ''Wave'' ''v'' []
     = Inr (True, (store_of [newEmoji ''a'' ''Wave'' ''u'' [],
                             newEmoji ''b'' ''Wave'' ''v'' []])\<lparr>setItem_calls := 1\<rparr>)
   \<and> addCustomEmoji (store_of [newEmoji ''a'' ''Wave'' ''u'' []]) ''b'' ''Wave'' ''v'' []
     = Inr (False, store_of [newEmoji ''a'' ''Wave'' ''u'' []])"
proof -
  let ?xs = "[newEmoji ''a'' ''Wave'' ''u'' []]"
  have l: "loadCustomEmojis (store_of ?xs) = JArr ?xs" by (rule load_store_of)
  have n: "JNull \<notin> set ?xs" by (simp add: newEmoji_fields)
  have "\<forall>e\<in>set ?xs. field e ''id'' \<noteq> Some (JStr ''b'')" by (simp add: newEmoji_fields)
  with l n have "addCustomEmoji_src (store_of ?xs) ''b'' ''Wave'' ''v'' [] =
      Inr (True, saveCustomEmojis (store_of ?xs) (?xs @ [newEmoji ''b'' ''Wave'' ''v'' []]))"
    by (rule add_src_append)
  moreover have
    "\<exists>e\<in>set ?xs. field e ''name'' = Some (JStr ''Wave'') \<and> field e ''id'' \<noteq> Some (JStr ''b'')"
    by (simp add: newEmoji_fields)
  with l n have "addCustomEmoji (store_of ?xs) ''b'' ''Wave'' ''v'' [] = Inr (False, store_of ?xs)"
    by (rule add_rejected)
  ultimately show ?thesis by (simp add: save_store_of)
qed

text \<open>
  The \<open>addCustomEmoji\<close> with the duplicate-name check, on a stored collection of records:
  when a record with another id uses the name, the call returns \<open>false\<close> and the storage
  is what it was, with no write attempted; otherwise the call returns \<open>true\<close> and saves
  the upsert by id: the new record in the place of the first record with its id, or at
  the end when no record has its id.
\<close>

theorem addCustomEmoji_checks_name:
  assumes "loadCustomEmojis st = JArr xs" and "JNull \<notin> set xs"
  shows "((\<exists>e\<in>set xs. field e ''name'' = Some (JStr n) \<and> field e ''id'' \<noteq> Some (JStr i)) \<longrightarrow>
            addCustomEmoji st i n u k = Inr (False, st))
       \<and> ((\<forall>e\<in>set xs. field e ''name'' = Some (JStr n) \<longrightarrow> field e ''id'' = Some (JStr i)) \<longrightarrow>
            (\<exists>saved. addCustomEmoji st i n u k = Inr (True, saveCustomEmojis st saved)
               \<and> (((\<forall>e\<in>set xs. field e ''id'' \<noteq> Some (JStr i))
                      \<and> saved = xs @ [newEmoji i n u k])
                  \<or> (\<exists>p<length xs. field (xs ! p) ''id'' = Some (JStr i)
                      \<and> (\<forall>j<p. field (xs ! j) ''id'' \<noteq> Some (JStr i))
                      \<and> saved = xs[p := newEmoji i n u k]))))"
proof (intro conjI impI)
  assume "\<exists>e\<in>set xs. field e ''name'' = Some (JStr n) \<and> field e ''id'' \<noteq> Some (JStr i)"
  with assms show "addCustomEmoji st i n u k = Inr (False, st)"
    by (rule add_rejected)
next
  assume free: "\<forall>e\<in>set xs. field e ''name'' = Some (JStr n) \<longrightarrow> field e ''id'' = Some (JStr i)"
  have "addCustomEmoji st i n u k = addCustomEmoji_src st i n u k"
    using assms free by (rule add_not_rejected)
  with add_src_cases[OF assms, of i n u k]
  show "\<exists>saved. addCustomEmoji st i n u k = Inr (True, saveCustomEmojis st saved)
               \<and> (((\<forall>e\<in>set xs. field e ''id'' \<noteq> Some (JStr i))
                      \<and> saved = xs @ [newEmoji i n u k])
                  \<or> (\<exists>p<length xs. field (xs ! p) ''id'' = Some (JStr i)
                      \<and> (\<forall>j<p. field (xs ! j) ''id'' \<noteq> Some (JStr i))
                      \<and> saved = xs[p := newEmoji i n u k]))"
    by simp
qed

theorem addCustomEmoji_checks_name_witness:
  "addCustomEmoji (store_of [newEmoji ''a'' ''Wave'' ''u'' []]) ''b'' ''Wave'' ''v'' []
     = Inr (False, store_of [newEmoji ''a'' ''Wave'' ''u'' []])
   \<and> addCustomEmoji empty_store ''wave'' ''Wave'' ''https://x/y.png'' []
     = Inr (True, (store_of [newEmoji ''wave'' ''Wave'' ''https://x/y.png'' []])
                    \<lparr>setItem_calls := 1\<rparr>)"
proof -
  let ?xs = "[newEmoji ''a'' ''Wave'' ''u'' []]"
  have l: "loadCustomEmojis (store_of ?xs) = JArr ?xs" by (rule load_store_of)
  have n: "JNull \<notin> set ?xs" by (simp add: newEmoji_fields)
  have e: "JNull \<notin> set ([] :: json list)" by simp
  have s: "saveCustomEmojis empty_store [newEmoji ''wave'' ''Wave'' ''https://x/y.png'' []]
      = (store_of [newEmoji ''wave'' ''Wave'' ''https://x/y.png'' []])\<lparr>setItem_calls := 1\<rparr>"
    by (simp add: empty_store_def store_of_def saveCustomEmojis_def setItem_def JSON_stringify_def)
  show ?thesis
    using addCustomEmoji_checks_name [OF l n, of "''Wave''" "''b''" "''v''" "[]"]
          addCustomEmoji_checks_name [OF load_empty_store e, of "''Wave''" "''wave''"
            "''https://x/y.png''" "[]"]
    by (simp add: newEmoji_fields s)
qed

text \<open>
  C4, as amended. On a stored collection of records whose first record with the id \<open>X\<close>
  is at position \<open>p\<close>, a call of add with the id \<open>X\<close> and a name that no record with
  another id uses returns \<open>true\<close> and saves the collection with that record replaced in
  place: the saved collection has the same length, the new record is at position \<open>p\<close>,
  and every other record keeps its position; nothing is appended. This holds for the
  \<open>addCustomEmoji\<close> of both files. As stated, for every call, the claim fails: the
  \<open>addCustomEmoji\<close> with the duplicate-name check rejects a call whose name a record with
  another id uses, and replaces nothing.
\<close>

theorem addCustomEmoji_replaces_in_place:
  assumes "loadCustomEmojis st = JArr xs" and "JNull \<notin> set xs"
    and "p < length xs" and "field (xs ! p) ''id'' = Some (JStr i)"
    and "\<forall>j<p. field (xs ! j) ''id'' \<noteq> Some (JStr i)"
    and "\<forall>e\<in>set xs. field e ''name'' = Some (JStr n) \<longrightarrow> field e ''id'' = Some (JStr i)"
  shows "addCustomEmoji st i n u k = Inr (True, saveCustomEmojis st (xs[p := newEmoji i n u k]))
     \<and> addCustomEmoji_src st i n u k =
         Inr (True, saveCustomEmojis st (xs[p := newEmoji i n u k]))
     \<and> length (xs[p := newEmoji i n u k]) = length xs
     \<and> xs[p := newEmoji i n u k] ! p = newEmoji i n u k
     \<and> (\<forall>j. j \<noteq> p \<longrightarrow> xs[p := newEmoji i n u k] ! j = xs ! j)
     \<and> (accepts st (JSON_stringify (JArr (xs[p := newEmoji i n u k]))) \<longrightarrow>
          loadCustomEmojis (saveCustomEmojis st (xs[p := newEmoji i n u k]))
            = JArr (xs[p := newEmoji i n u k]))"
proof -
  have s: "addCustomEmoji_src st i n u k =
             Inr (True, saveCustomEmojis st (xs[p := newEmoji i n u k]))"
    using assms(1-5) by (rule add_src_replace)
  have "addCustomEmoji st i n u k = addCustomEmoji_src st i n u k"
    using assms(1,2,6) by (rule add_not_rejected)
  with s show ?thesis using assms(3) by (simp add: load_save_cases)
qed

theorem addCustomEmoji_replaces_in_place_witness:
  "addCustomEmoji (store_of [newEmoji ''a'' ''A'' ''u'' [], newEmoji ''b'' ''B'' ''v'' []])
     ''b'' ''B2'' ''w'' []
   = Inr (True, (store_of [newEmoji ''a'' ''A'' ''u'' [], newEmoji ''b'' ''B2'' ''w'' []])
                  \<lparr>setItem_calls := 1\<rparr>)
   \<and> addCustomEmoji_src (store_of [newEmoji ''a'' ''A'' ''u'' [], newEmoji ''b'' ''B'' ''v'' []])
     ''b'' ''B2'' ''w'' []
   = Inr (True, (store_of [newEmoji ''a'' ''A'' ''u'' [], newEmoji ''b'' ''B2'' ''w'' []])
                  \<lparr>setItem_calls := 1\<rparr>)"
proof -
  let ?xs = "[newEmoji ''a'' ''A'' ''u'' [], newEmoji ''b'' ''B'' ''v'' []]"
  have 1: "loadCustomEmojis (store_of ?xs) = JArr ?xs" by (rule load_store_of)
  have 2: "JNull \<notin> set ?xs" by (simp add: newEmoji_fields)
  have 3: "(1::nat) < length ?xs" by simp
  have 4: "field (?xs ! 1) ''id'' = Some (JStr ''b'')" by (simp add: newEmoji_fields)
  have 5: "\<forall>j<1::nat. field (?xs ! j) ''id'' \<noteq> Some (JStr ''b'')" by (simp add: newEmoji_fields)
  have 6: "\<forall>e\<in>set ?xs. field e ''name'' = Some (JStr ''B2'') \<longrightarrow>
             field e ''id'' = Some (JStr ''b'')"
    by (simp add: newEmoji_fields)
  show ?thesis
    using addCustomEmoji_replaces_in_place [OF 1 2 3 4 5 6, of "''w''" "[]"]
    by (simp add: save_store_of)
qed

theorem addCustomEmoji_rejected_not_replaced:
  "loadCustomEmojis (store_of [newEmoji ''a'' ''A'' ''u'' [], newEmoji ''b'' ''B'' ''v'' []])
     = JArr [newEmoji ''a'' ''A'' ''u'' [], newEmoji ''b'' ''B'' ''v'' []]
   \<and> field ([newEmoji ''a'' ''A'' ''u'' [], newEmoji ''b'' ''B'' ''v'' []] ! 0) ''id''
     = Some (JStr ''a'')
   \<and> [newEmoji ''a'' ''A'' ''u'' [], newEmoji ''b'' ''B'' ''v'' []] ! 0
     \<noteq> newEmoji ''a'' ''B'' ''w'' []
   \<and> addCustomEmoji (store_of [newEmoji ''a'' ''A'' ''u'' [], newEmoji ''b'' ''B'' ''v'' []])
       ''a'' ''B'' ''w'' []
     = Inr (False, store_of [newEmoji ''a'' ''A'' ''u'' [], newEmoji ''b'' ''B'' ''v'' []])"
proof -
  let ?xs = "[newEmoji ''a'' ''A'' ''u'' [], newEmoji ''b'' ''B'' ''v'' []]"
  have l: "loadCustomEmojis (store_of ?xs) = JArr ?xs" by (rule load_store_of)
  have n: "JNull \<notin> set ?xs" by (simp add: newEmoji_fields)
  have "\<exists>e\<in>set ?xs. field e ''name'' = Some (JStr ''B'') \<and> field e ''id'' \<noteq> Some (JStr ''a'')"
    by (simp add: newEmoji_fields)
  with l n have "addCustomEmoji (store_of ?xs) ''a'' ''B'' ''w'' [] = Inr (False, store_of ?xs)"
    by (rule add_rejected)
  moreover have "newEmoji ''a'' ''A'' ''u'' [] \<noteq> newEmoji ''a'' ''B'' ''w'' []"
    by (simp add: newEmoji_def)
  ultimately show ?thesis using l by (simp add: newEmoji_fields)
qed

section \<open>The store: import\<close>




text \<open>
  C2, as amended. For every stored collection of \<open>N\<close> records and every imported list of
  \<open>M\<close> valid records with pairwise distinct ids, of which exactly \<open>K\<close> have an id already
  present in the stored collection, \<open>importCustomEmojis\<close> reports \<open>M - K\<close> new and \<open>K\<close>
  updated emojis and saves a collection of exactly \<open>N + M - K\<close> records, which is the
  persisted collection when the browser accepts the write. As stated, for every imported
  list, the claim fails: a record whose id repeats the id of a record before it in the
  imported list updates that record and is counted as updated; and when the write is
  refused the persisted collection keeps its \<open>N\<close> records.
\<close>

theorem importCustomEmojis_counts:
  assumes "loadCustomEmojis st = JArr xs" and "\<forall>e\<in>set xs. is_record e"
    and "\<forall>y\<in>set ys. valid_record y" and "\<forall>y\<in>set ys. is_record y"
    and "distinct (map (\<lambda>y. field y ''id'') ys)"
  shows "\<exists>merged.
           importCustomEmojis d st (Encoded (JArr ys)) =
             (Imported (length ys - length (filter (id_in xs) ys)) (length (filter (id_in xs) ys)),
              saveCustomEmojis st merged)
         \<and> length merged = length xs + length ys - length (filter (id_in xs) ys)
         \<and> (accepts st (JSON_stringify (JArr merged)) \<longrightarrow>
              loadCustomEmojis (snd (importCustomEmojis d st (Encoded (JArr ys)))) = JArr merged)"
proof -
  let ?K = "length (filter (id_in xs) ys)"
  let ?A = "length (filter (\<lambda>y. \<not> id_in xs y) ys)"
  have split: "?K + ?A = length ys" by (rule sum_length_filter_compl)
  have nn: "JNull \<notin> set ys" using assms(3) by (rule valid_notnull)
  have nx: "JNull \<notin> set xs" using assms(2) by (rule is_record_notnull)
  from merge_counts[OF nn nx assms(5), of 0] obtain merged where
    m: "merge_emojis ys xs 0 = Inr (merged, ?A)" and l: "length merged = length xs + ?A"
    by auto
  have "importCustomEmojis d st (Encoded (JArr ys)) =
          (Imported ?A (length ys - ?A), saveCustomEmojis st merged)"
    using assms(3) assms(4) assms(1) assms(2) m by (rule import_ok)
  moreover have "?A = length ys - ?K" "length ys - ?A = ?K" using split by arith+
  ultimately have r: "importCustomEmojis d st (Encoded (JArr ys)) =
          (Imported (length ys - ?K) ?K, saveCustomEmojis st merged)"
    by simp
  have "length merged = length xs + length ys - ?K" using l split by arith
  with r show ?thesis by (auto simp: load_save_cases)
qed

theorem importCustomEmojis_counts_witness:
  "\<exists>merged.
     importCustomEmojis base_data (store_of [JObj [(''id'', JStr ''a'')]])
       (Encoded (JArr [plain_record ''a'' ''A2'' ''s2'', plain_record ''b'' ''B'' ''s3'']))
     = (Imported 1 1, saveCustomEmojis (store_of [JObj [(''id'', JStr ''a'')]]) merged)
   \<and> length merged = 2
   \<and> loadCustomEmojis
       (snd (importCustomEmojis base_data (store_of [JObj [(''id'', JStr ''a'')]])
          (Encoded (JArr [plain_record ''a'' ''A2'' ''s2'', plain_record ''b'' ''B'' ''s3'']))))
     = JArr merged"
proof -
  let ?xs = "[JObj [(''id'', JStr ''a'')]]"
  let ?ys = "[plain_record ''a'' ''A2'' ''s2'', plain_record ''b'' ''B'' ''s3'']"
  have 1: "loadCustomEmojis (store_of ?xs) = JArr ?xs" by (rule load_store_of)
  have 2: "\<forall>e\<in>set ?xs. is_record e" by (simp add: is_record_def)
  have 3: "\<forall>y\<in>set ?ys. valid_record y" by (simp add: valid_plain_record)
  have 4: "\<forall>y\<in>set ?ys. is_record y" by (simp add: is_record_plain_record)
  have 5: "distinct (map (\<lambda>y. field y ''id'') ?ys)" by (simp add: plain_record_fields)
  have K: "length (filter (id_in ?xs) ?ys) = 1"
    by (simp add: id_in_def plain_record_fields strict_eq_def)
  from importCustomEmojis_counts [OF 1 2 3 4 5, of base_data] obtain merged where
    m: "importCustomEmojis base_data (store_of ?xs) (Encoded (JArr ?ys)) =
          (Imported (length ?ys - length (filter (id_in ?xs) ?ys))
                    (length (filter (id_in ?xs) ?ys)),
           saveCustomEmojis (store_of ?xs) merged)"
       "length merged = length ?xs + length ?ys - length (filter (id_in ?xs) ?ys)"
       "accepts (store_of ?xs) (JSON_stringify (JArr merged)) \<longrightarrow>
          loadCustomEmojis
            (snd (importCustomEmojis base_data (store_of ?xs) (Encoded (JArr ?ys))))
            = JArr merged"
    by blast
  have a: "importCustomEmojis base_data (store_of ?xs) (Encoded (JArr ?ys)) =
             (Imported 1 1, saveCustomEmojis (store_of ?xs) merged)"
    using m(1) unfolding K by simp
  have b: "length merged = 2" using m(2) unfolding K by simp
  have c: "loadCustomEmojis
             (snd (importCustomEmojis base_data (store_of ?xs) (Encoded (JArr ?ys))))
             = JArr merged"
    using m(3) by (simp only: accepts_store_of)
  from a b c show ?thesis by blast
qed

theorem importCustomEmojis_counts_counterexample:
  "loadCustomEmojis empty_store = JArr []
   \<and> length (filter (id_in [])
        [plain_record ''a'' ''A'' ''s'', plain_record ''a'' ''A2'' ''s2'']) = 0
   \<and> importCustomEmojis base_data empty_store
       (Encoded (JArr [plain_record ''a'' ''A'' ''s'', plain_record ''a'' ''A2'' ''s2'']))
     = (Imported 1 1, (store_of [plain_record ''a'' ''A2'' ''s2''])\<lparr>setItem_calls := 1\<rparr>)
   \<and> importCustomEmojis base_data (full_store_of [])
       (Encoded (JArr [plain_record ''a'' ''A'' ''s'']))
     = (Imported 1 0, (full_store_of [])\<lparr>setItem_calls := 1\<rparr>)"
proof -
  let ?a = "plain_record ''a'' ''A'' ''s''"
  let ?a2 = "plain_record ''a'' ''A2'' ''s2''"
  have v: "\<forall>e\<in>set [?a, ?a2]. valid_record e" "\<forall>e\<in>set [?a]. valid_record e"
    by (simp_all add: valid_plain_record)
  have r: "\<forall>e\<in>set [?a, ?a2]. is_record e" "\<forall>e\<in>set [?a]. is_record e"
    "\<forall>e\<in>set ([] :: json list). is_record e"
    by (simp_all add: is_record_plain_record)
  have m2: "merge_emojis [?a, ?a2] [] 0 = Inr ([?a2], 1)"
    by (simp add: same_id_pure plain_record_fields strict_eq_def)
  have m1: "merge_emojis [?a] [] 0 = Inr ([?a], 1)"
    by simp
  have s: "saveCustomEmojis empty_store [?a2] = (store_of [?a2])\<lparr>setItem_calls := 1\<rparr>"
    by (simp add: empty_store_def store_of_def saveCustomEmojis_def setItem_def
        JSON_stringify_def)
  have "importCustomEmojis base_data empty_store (Encoded (JArr [?a, ?a2]))
          = (Imported 1 (length [?a, ?a2] - 1), saveCustomEmojis empty_store [?a2])"
    using v(1) r(1) load_empty_store r(3) m2 by (rule import_ok)
  moreover have "importCustomEmojis base_data (full_store_of []) (Encoded (JArr [?a]))
          = (Imported 1 (length [?a] - 1), saveCustomEmojis (full_store_of []) [?a])"
    using v(2) r(2) load_full_store_of r(3) m1 by (rule import_ok)
  ultimately show ?thesis
    by (simp add: load_empty_store id_in_def s save_full_store_of)
qed

section \<open>The composed dataset\<close>

text \<open>
  C5. \<open>createCustomEmojiData\<close> returns the base dataset itself when the store holds no
  custom record. When the store holds a collection of records that is not empty, it
  returns the base dataset extended with exactly one category, the last, whose id is
  \<open>custom\<close> and whose members are the ids of the custom records in the order of the
  collection; the base categories come first, unchanged, every entry of the emoji table
  under a key that is not the id of a custom record is the base entry, and every other
  field of the base dataset is carried over.
\<close>

theorem createCustomEmojiData_adds_custom_category:
  "(loadCustomEmojis st = JArr [] \<longrightarrow> createCustomEmojiData d st = Inr d)
   \<and> (\<forall>xs. loadCustomEmojis st = JArr xs \<and> xs \<noteq> []
          \<and> (\<forall>e\<in>set xs. e \<noteq> JNull \<and> \<not> by_reference (field e ''id'')) \<longrightarrow>
        (\<exists>d'. createCustomEmojiData d st = Inr d'
           \<and> categories d' = categories d @
                [\<lparr>cat_id = ''custom'', cat_name = Some ''Custom'',
                  cat_emojis = map (\<lambda>e. field e ''id'') xs\<rparr>]
           \<and> (\<forall>k. (\<forall>e\<in>set xs. ToString (field e ''id'') \<noteq> Inr k) \<longrightarrow>
                  emojis d' k = emojis d k)
           \<and> emoji_data.more d' = emoji_data.more d))"
proof (intro conjI allI impI)
  assume "loadCustomEmojis st = JArr []"
  then show "createCustomEmojiData d st = Inr d"
    by (rule createCustomEmojiData_empty)
next
  fix xs
  assume a: "loadCustomEmojis st = JArr xs \<and> xs \<noteq> []
          \<and> (\<forall>e\<in>set xs. e \<noteq> JNull \<and> \<not> by_reference (field e ''id''))"
  then obtain t where
    t: "createCustomEmojiData d st =
          Inr (d\<lparr>categories := categories d @
                   [\<lparr>cat_id = ''custom'', cat_name = Some ''Custom'',
                     cat_emojis = map (\<lambda>e. field e ''id'') xs\<rparr>],
                 emojis := emojis d ++ t\<rparr>)"
       "\<forall>k. (\<forall>e\<in>set xs. ToString (field e ''id'') \<noteq> Inr k) \<longrightarrow> t k = None"
    using createCustomEmojiData_eq[of st xs d] by blast
  have "\<forall>k. (\<forall>e\<in>set xs. ToString (field e ''id'') \<noteq> Inr k) \<longrightarrow>
              (emojis d ++ t) k = emojis d k"
    using t(2) by (simp add: map_add_def)
  with t(1) show "\<exists>d'. createCustomEmojiData d st = Inr d'
           \<and> categories d' = categories d @
                [\<lparr>cat_id = ''custom'', cat_name = Some ''Custom'',
                  cat_emojis = map (\<lambda>e. field e ''id'') xs\<rparr>]
           \<and> (\<forall>k. (\<forall>e\<in>set xs. ToString (field e ''id'') \<noteq> Inr k) \<longrightarrow>
                  emojis d' k = emojis d k)
           \<and> emoji_data.more d' = emoji_data.more d"
    by simp
qed

theorem createCustomEmojiData_adds_custom_category_witness:
  "createCustomEmojiData base_data empty_store = Inr base_data
   \<and> (\<exists>d'. createCustomEmojiData base_data
              (store_of [newEmoji ''wave'' ''Wave'' ''https://x/y.png'' []]) = Inr d'
         \<and> categories d' =
             [\<lparr>cat_id = ''people'', cat_name = None, cat_emojis = [Some (JStr ''grinning'')]\<rparr>,
              \<lparr>cat_id = ''custom'', cat_name = Some ''Custom'',
                cat_emojis = [Some (JStr ''wave'')]\<rparr>]
         \<and> emojis d' ''grinning'' = Some (JObj [(''id'', JStr ''grinning'')]))"
proof -
  let ?xs = "[newEmoji ''wave'' ''Wave'' ''https://x/y.png'' []]"
  have 1: "createCustomEmojiData base_data empty_store = Inr base_data"
    using createCustomEmojiData_adds_custom_category [of empty_store base_data] load_empty_store
    by blast
  have "loadCustomEmojis (store_of ?xs) = JArr ?xs \<and> ?xs \<noteq> []
          \<and> (\<forall>e\<in>set ?xs. e \<noteq> JNull \<and> \<not> by_reference (field e ''id''))"
    by (simp add: load_store_of newEmoji_fields)
  with createCustomEmojiData_adds_custom_category [of "store_of ?xs" base_data]
  obtain d' where d:
    "createCustomEmojiData base_data (store_of ?xs) = Inr d'"
    "categories d' = categories base_data @
        [\<lparr>cat_id = ''custom'', cat_name = Some ''Custom'',
          cat_emojis = map (\<lambda>e. field e ''id'') ?xs\<rparr>]"
    "\<forall>k. (\<forall>e\<in>set ?xs. ToString (field e ''id'') \<noteq> Inr k) \<longrightarrow>
          emojis d' k = emojis base_data k"
    by blast
  have c: "categories d' =
             [\<lparr>cat_id = ''people'', cat_name = None, cat_emojis = [Some (JStr ''grinning'')]\<rparr>,
              \<lparr>cat_id = ''custom'', cat_name = Some ''Custom'',
                cat_emojis = [Some (JStr ''wave'')]\<rparr>]"
    using d(2) by (simp add: base_data_def newEmoji_fields)
  have "\<forall>e\<in>set ?xs. ToString (field e ''id'') \<noteq> Inr ''grinning''"
    by (simp add: newEmoji_fields ToString_str)
  with d(3) have "emojis d' ''grinning'' = emojis base_data ''grinning''"
    by blast
  then have e: "emojis d' ''grinning'' = Some (JObj [(''id'', JStr ''grinning'')])"
    by (simp add: base_data_def)
  from 1 d(1) c e show ?thesis by blast
qed

section \<open>Insertion and the picker\<close>

text \<open>
  C7. The text \<open>insertEmoji\<close> inserts is the image-markdown string \<open>![id](src)\<close> exactly
  when the descriptor has a \<open>src\<close> that is not empty and no native glyph (the \<open>native\<close>
  field is absent or empty); in every other case it is the value of the \<open>native\<close> field
  as it is. That text replaces the selection of the text field, and the picker is hidden.
\<close>

theorem insertEmoji_text:
  "(\<forall>s. src d = Some s \<and> s \<noteq> [] \<and> (native d = None \<or> native d = Some []) \<longrightarrow>
        emojiText d = Some (''!['' @ emoji_id d @ '']('' @ s @ '')''))
   \<and> (src d = None \<or> src d = Some [] \<or> (\<exists>g. native d = Some g \<and> g \<noteq> []) \<longrightarrow>
        emojiText d = native d)
   \<and> (\<forall>a b. selectionStart (send_textarea u) = Some a \<and> selectionEnd (send_textarea u) = Some b
          \<and> a \<le> b \<and> b \<le> length (ta_value (send_textarea u)) \<longrightarrow>
        insertEmoji u d =
          Inr (u\<lparr>send_textarea :=
                   \<lparr>ta_value = take a (ta_value (send_textarea u)) @ text_of (emojiText d)
                                 @ drop b (ta_value (send_textarea u)),
                    selectionStart = Some (a + length (text_of (emojiText d))),
                    selectionEnd = Some (a + length (text_of (emojiText d)))\<rparr>,
                 displayNone := True\<rparr>))"
  by (auto simp: emojiText_def truthy_string_def text_of_def insertEmoji_def typeInTextarea_def
      setRangeText_def min_def)

theorem insertEmoji_text_witness:
  "emojiText \<lparr>emoji_id = ''wave'', native = None, src = Some ''https://x/y.png''\<rparr>
     = Some ''![wave](https://x/y.png)''
   \<and> emojiText \<lparr>emoji_id = ''grinning'',
                 native = Some [CHR 0xF0, CHR 0x9F, CHR 0x98, CHR 0x80], src = None\<rparr>
     = Some [CHR 0xF0, CHR 0x9F, CHR 0x98, CHR 0x80]
   \<and> insertEmoji
       \<lparr>send_textarea = \<lparr>ta_value = ''hi there'', selectionStart = Some 2, selectionEnd = Some 2\<rparr>,
        displayNone = False, manager_displayed = False\<rparr>
       \<lparr>emoji_id = ''wave'', native = None, src = Some ''https://x/y.png''\<rparr>
     = Inr \<lparr>send_textarea = \<lparr>ta_value = ''hi![wave](https://x/y.png) there'',
                              selectionStart = Some 26, selectionEnd = Some 26\<rparr>,
            displayNone = True, manager_displayed = False\<rparr>"
proof -
  let ?custom = "\<lparr>emoji_id = ''wave'', native = None, src = Some ''https://x/y.png''\<rparr>"
  let ?standard = "\<lparr>emoji_id = ''grinning'',
                    native = Some [CHR 0xF0, CHR 0x9F, CHR 0x98, CHR 0x80], src = None\<rparr>"
  let ?page = "\<lparr>send_textarea = \<lparr>ta_value = ''hi there'', selectionStart = Some 2,
                                    selectionEnd = Some 2\<rparr>,
                 displayNone = False, manager_displayed = False\<rparr>"
  have "src ?custom = Some ''https://x/y.png'' \<and> ''https://x/y.png'' \<noteq> []
          \<and> (native ?custom = None \<or> native ?custom = Some [])"
    by simp
  with insertEmoji_text [of ?custom ?page]
  have "emojiText ?custom = Some (''!['' @ emoji_id ?custom @ '']('' @ ''https://x/y.png'' @ '')'')"
    by blast
  then have 1: "emojiText ?custom = Some ''![wave](https://x/y.png)''"
    by simp
  have "src ?standard = None" by simp
  with insertEmoji_text [of ?standard ?page] have "emojiText ?standard = native ?standard"
    by blast
  then have 2: "emojiText ?standard = Some [CHR 0xF0, CHR 0x9F, CHR 0x98, CHR 0x80]"
    by simp
  have "selectionStart (send_textarea ?page) = Some 2 \<and> selectionEnd (send_textarea ?page) = Some 2
          \<and> (2::nat) \<le> 2 \<and> 2 \<le> length (ta_value (send_textarea ?page))"
    by simp
  with insertEmoji_text [of ?custom ?page]
  have "insertEmoji ?page ?custom =
          Inr (?page\<lparr>send_textarea :=
                   \<lparr>ta_value = take 2 (ta_value (send_textarea ?page)) @ text_of (emojiText ?custom)
                                 @ drop 2 (ta_value (send_textarea ?page)),
                    selectionStart = Some (2 + length (text_of (emojiText ?custom))),
                    selectionEnd = Some (2 + length (text_of (emojiText ?custom)))\<rparr>,
                 displayNone := True\<rparr>)"
    by blast
  then have 3: "insertEmoji ?page ?custom =
      Inr \<lparr>send_textarea = \<lparr>ta_value = ''hi![wave](https://x/y.png) there'',
                              selectionStart = Some 26, selectionEnd = Some 26\<rparr>,
            displayNone = True, manager_displayed = False\<rparr>"
    unfolding 1 by (simp add: text_of_def)
  from 1 2 3 show ?thesis by blast
qed

text \<open>
  C9. The picker is visible or hidden (it has the class \<open>displayNone\<close>). An outside click
  makes a visible picker hidden, and leaves the page as it is when the picker is hidden.
  A hidden picker stays hidden after an outside click, after a keyup (the escape key among
  them) and after an emoji selection: of all events, only a click on the trigger button
  makes a hidden picker visible.
\<close>

theorem outside_click_hides:
  "(\<not> displayNone u \<longrightarrow> displayNone (step u (Click Elsewhere)))
   \<and> (displayNone u \<longrightarrow> step u (Click Elsewhere) = u
         \<and> displayNone (step u (KeyUp key)) \<and> displayNone (step u (EmojiSelect d)))
   \<and> (\<forall>ev. displayNone u \<and> ev \<noteq> Click AddEmojiButton \<longrightarrow> displayNone (step u ev))"
proof -
  have "\<And>ev. displayNone u \<Longrightarrow> ev \<noteq> Click AddEmojiButton \<Longrightarrow> displayNone (step u ev)"
  proof -
    fix ev assume h: "displayNone u" "ev \<noteq> Click AddEmojiButton"
    show "displayNone (step u ev)"
    proof (cases ev)
      case (Click t)
      with h show ?thesis
        by (cases t) (simp_all add: body_click_def buttonContainer_click_def manageButton_click_def)
    next
      case (KeyUp k)
      with h show ?thesis by (simp add: body_keyup_def)
    next
      case (EmojiSelect e)
      with h show ?thesis by (simp add: insertEmoji_def split: sum.splits)
    qed
  qed
  then have all: "\<forall>ev. displayNone u \<and> ev \<noteq> Click AddEmojiButton \<longrightarrow> displayNone (step u ev)"
    by blast
  have vis: "\<not> displayNone u \<longrightarrow> displayNone (step u (Click Elsewhere))"
    by (simp add: body_click_def buttonContainer_click_def)
  have hid: "displayNone u \<longrightarrow> step u (Click Elsewhere) = u"
    by (simp add: body_click_def buttonContainer_click_def)
  have key: "displayNone u \<longrightarrow> displayNone (step u (KeyUp key))"
    by (simp add: body_keyup_def)
  have sel: "displayNone u \<longrightarrow> displayNone (step u (EmojiSelect d))"
    by (simp add: insertEmoji_def split: sum.splits)
  from all vis hid key sel show ?thesis by blast
qed

theorem outside_click_hides_witness:
  "displayNone (step visible_page (Click Elsewhere))
   \<and> step (step visible_page (Click Elsewhere)) (Click Elsewhere)
       = step visible_page (Click Elsewhere)
   \<and> displayNone (step (step visible_page (Click Elsewhere)) (KeyUp ''Escape''))
   \<and> displayNone (step (step visible_page (Click Elsewhere))
        (EmojiSelect \<lparr>emoji_id = ''wave'', native = None, src = Some ''https://x/y.png''\<rparr>))
   \<and> displayNone (step (step visible_page (Click Elsewhere)) (Click ManageButton))"
proof -
  have v: "\<not> displayNone visible_page" by (simp add: visible_page_def)
  with outside_click_hides [of visible_page] have
    h: "displayNone (step visible_page (Click Elsewhere))"
    by blast
  have m: "Click ManageButton \<noteq> Click AddEmojiButton" by simp
  from h m outside_click_hides
      [of "step visible_page (Click Elsewhere)" "''Escape''"
          "\<lparr>emoji_id = ''wave'', native = None, src = Some ''https://x/y.png''\<rparr>"]
  show ?thesis by blast
qed

section \<open>The collection the program keeps\<close>

text \<open>
  An invariant of the store. A storage whose slot is absent holds records (the empty
  collection). From a storage that holds records, add (of either file), remove and import
  never throw, and the storage they leave holds records again, whatever the arguments, the
  imported payload and the browser's answer to the write.
\<close>

theorem holds_records_invariant:
  "(slot st = None \<longrightarrow> holds_records st)
   \<and> (holds_records st \<longrightarrow>
        (\<exists>b st'. addCustomEmoji st i n u k = Inr (b, st') \<and> holds_records st')
      \<and> (\<exists>st'. addCustomEmoji_src st i n u k = Inr (True, st') \<and> holds_records st')
      \<and> (\<exists>st'. removeCustomEmoji st i = Inr (True, st') \<and> holds_records st')
      \<and> holds_records (snd (importCustomEmojis d st payload)))"
proof (intro conjI impI)
  assume "slot st = None"
  then show "holds_records st"
    by (simp add: holds_records_def loadCustomEmojis_def load_body_def getItem_def)
next
  assume h: "holds_records st"
  then obtain xs where xs: "loadCustomEmojis st = JArr xs" "JNull \<notin> set xs"
    by (auto simp: holds_records_iff)
  from add_src_cases[OF xs, of i n u k] obtain saved where
    s: "addCustomEmoji_src st i n u k = Inr (True, saveCustomEmojis st saved)"
       "saved = xs @ [newEmoji i n u k] \<or> (\<exists>p. saved = xs[p := newEmoji i n u k])"
    by blast
  have "set saved \<subseteq> insert (newEmoji i n u k) (set xs)"
    using s(2) set_update_subset_insert by fastforce
  then have "JNull \<notin> set saved"
    using xs(2) by (auto simp: newEmoji_fields)
  with h have hs: "holds_records (saveCustomEmojis st saved)"
    by (rule holds_records_save)
  with s(1) show "\<exists>st'. addCustomEmoji_src st i n u k = Inr (True, st') \<and> holds_records st'"
    by blast
  show "\<exists>b st'. addCustomEmoji st i n u k = Inr (b, st') \<and> holds_records st'"
  proof (cases "\<exists>e\<in>set xs. field e ''name'' = Some (JStr n) \<and> field e ''id'' \<noteq> Some (JStr i)")
    case True
    with xs have "addCustomEmoji st i n u k = Inr (False, st)" by (rule add_rejected)
    with h show ?thesis by blast
  next
    case False
    then have "\<forall>e\<in>set xs. field e ''name'' = Some (JStr n) \<longrightarrow> field e ''id'' = Some (JStr i)"
      by blast
    with xs have "addCustomEmoji st i n u k = addCustomEmoji_src st i n u k"
      by (rule add_not_rejected)
    with s(1) hs show ?thesis by auto
  qed
  have "JNull \<notin> set (filter (\<lambda>e. field e ''id'' \<noteq> Some (JStr i)) xs)"
    using xs(2) by simp
  with h have "holds_records
      (saveCustomEmojis st (filter (\<lambda>e. field e ''id'' \<noteq> Some (JStr i)) xs))"
    by (rule holds_records_save)
  with remove_eq[OF xs, of i]
  show "\<exists>st'. removeCustomEmoji st i = Inr (True, st') \<and> holds_records st'"
    by blast
  show "holds_records (snd (importCustomEmojis d st payload))"
  proof (cases "\<exists>ys. payload = Encoded (JArr ys) \<and> (\<forall>e\<in>set ys. valid_record e)")
    case True
    then obtain ys where ys: "payload = Encoded (JArr ys)" "\<forall>e\<in>set ys. valid_record e"
      by blast
    then have "JNull \<notin> set ys" by (simp add: valid_notnull)
    from merge_total[OF this xs(2), of 0] obtain merged a where
      m: "merge_emojis ys xs 0 = Inr (merged, a)" "JNull \<notin> set merged"
      by blast
    from import_state[OF ys(2) xs(1) m(1), of d] holds_records_save[OF h m(2)] ys(1)
    show ?thesis by simp
  next
    case False
    then have "(\<forall>ys. payload \<noteq> Encoded (JArr ys))
                \<or> (\<exists>ys. payload = Encoded (JArr ys) \<and> (\<exists>e\<in>set ys. \<not> valid_record e))"
      by blast
    then have "\<exists>err. importCustomEmojis d st payload = (ImportFailed err, st)"
      using import_fails_not_array import_fails_invalid by blast
    with h show ?thesis by auto
  qed
qed

theorem holds_records_invariant_witness:
  "holds_records empty_store
   \<and> (\<exists>b st'. addCustomEmoji empty_store ''wave'' ''Wave'' ''https://x/y.png'' [] = Inr (b, st')
         \<and> holds_records st')
   \<and> (\<exists>st'. removeCustomEmoji empty_store ''wave'' = Inr (True, st') \<and> holds_records st')
   \<and> holds_records (snd (importCustomEmojis base_data empty_store Malformed))"
proof -
  have s: "slot empty_store = None" by (simp add: empty_store_def)
  from holds_records_invariant
         [of empty_store "''wave''" "''Wave''" "''https://x/y.png''" "[]" base_data Malformed] s
  show ?thesis by blast
qed

end
